theory Spec2Isabelle
  imports Complex_Main "HOL-Library.Sublist"
begin

section \<open>Errors\<close>

text \<open>
  Every exception that the modelled code can raise is a value of this type. The names
  are those of the Python exceptions, except \<open>LoadError\<close>, which stands for whatever
  \<open>torchaudio.load\<close> raises on a file that is missing or cannot be decoded.
\<close>

datatype error = FileNotFoundError | IndexError | LoadError | ValueError | RuntimeError
  | ExternalError string

section \<open>Paths and the file system\<close>

text \<open>
  A path is its string form. \<open>p / q\<close> of \<open>pathlib\<close> joins with a separator, and an
  absolute right operand replaces the left one. Paths are taken as already normalised
  (no trailing separator, no empty left operand).
\<close>

type_synonym path = string

definition path_join :: "path \<Rightarrow> path \<Rightarrow> path" where
  "path_join p q = (if take 1 q = ''/'' then q else p @ ''/'' @ q)"

text \<open>
  A row of the manifest \<open>meta/esc50.csv\<close>, with the three columns the code reads.
\<close>

record row =
  filename :: string
  fold_id :: int
  target :: int

text \<open>
  The files on disk: the CSV files, already parsed into rows by \<open>pd.read_csv\<close>, and the
  audio files, each decoded by \<open>torchaudio.load\<close> into a waveform and the sample rate
  stored in the file. A path outside the domain is a file that is missing or unreadable.
\<close>

record 'w fs =
  csv_files :: "path \<rightharpoonup> row list"
  audio_files :: "path \<rightharpoonup> ('w \<times> int)"

definition read_csv :: "'w fs \<Rightarrow> path \<Rightarrow> error + row list" where
  "read_csv disk p = (case csv_files disk p of None \<Rightarrow> Inl FileNotFoundError | Some rows \<Rightarrow> Inr rows)"

definition torchaudio_load :: "'w fs \<Rightarrow> path \<Rightarrow> error + ('w \<times> int)" where
  "torchaudio_load disk p = (case audio_files disk p of None \<Rightarrow> Inl LoadError | Some wr \<Rightarrow> Inr wr)"

section \<open>The transforms of torchaudio\<close>

text \<open>
  A transform object holds its configuration; its constructor stores the arguments.
  What a transform computes on a tensor is the library's, in floating point: the three
  forward functions are parameters of the model, collected in a record. \<open>'w\<close> is the
  type of waveforms, \<open>'f\<close> the type of feature maps.
\<close>

record Resample =
  orig_freq :: int
  new_freq :: int

record MelSpectrogram =
  sample_rate :: int

record AmplitudeToDB =
  top_db :: int

record ('w, 'f) torchaudio =
  resample_forward :: "Resample \<Rightarrow> 'w \<Rightarrow> 'w"
  melspec_forward :: "MelSpectrogram \<Rightarrow> 'w \<Rightarrow> 'f"
  db_forward :: "AmplitudeToDB \<Rightarrow> 'f \<Rightarrow> 'f"

section \<open>ESC50Dataset\<close>

record ESC50Dataset =
  path :: path
  csv :: "row list"
  resample :: Resample
  melspec :: MelSpectrogram
  db :: AmplitudeToDB

text \<open>\<open>self.csv[self.csv["fold"].isin(folds)]\<close>: the rows whose fold is among \<open>folds\<close>, in order.\<close>

definition isin :: "int \<Rightarrow> int list \<Rightarrow> bool" where
  "isin v folds = (v \<in> set folds)"

text \<open>
  \<open>ESC50Dataset.__init__\<close>. The defaults of the signature are the constants below; a
  caller that leaves an argument out passes the default.
\<close>

definition default_path :: path where
  "default_path = ''data/ESC-50''"

definition default_sample_rate :: int where
  "default_sample_rate = 8000"

definition default_folds :: "int list" where
  "default_folds = [1]"

definition ESC50Dataset_init :: "'w fs \<Rightarrow> path \<Rightarrow> int \<Rightarrow> int list \<Rightarrow> error + ESC50Dataset" where
  "ESC50Dataset_init disk p sr folds =
     (case read_csv disk (path_join p ''meta/esc50.csv'') of
        Inl e \<Rightarrow> Inl e
      | Inr rows \<Rightarrow>
          Inr \<lparr> path = p,
                csv = filter (\<lambda>r. isin (fold_id r) folds) rows,
                resample = \<lparr> orig_freq = 44100, new_freq = sr \<rparr>,
                melspec = \<lparr> sample_rate = sr \<rparr>,
                db = \<lparr> top_db = 80 \<rparr> \<rparr>)"

text \<open>\<open>ESC50Dataset.__len__\<close>.\<close>

definition ESC50Dataset_len :: "ESC50Dataset \<Rightarrow> int" where
  "ESC50Dataset_len ds = int (length (csv ds))"

text \<open>
  \<open>DataFrame.iloc[index]\<close> with an integer: a negative index counts from the end, an
  index out of range raises.
\<close>

definition iloc :: "row list \<Rightarrow> int \<Rightarrow> error + row" where
  "iloc rows i =
     (let n = int (length rows); j = (if i < 0 then n + i else i)
      in if 0 \<le> j \<and> j < n then Inr (rows ! nat j) else Inl IndexError)"

text \<open>
  \<open>ESC50Dataset.__getitem__\<close>. The first component lists the paths given to
  \<open>torchaudio.load\<close> during the call, in order; the second is what the call returns or
  raises. The sample rate that the loader reports is bound to \<open>_\<close> and dropped.
\<close>

definition ESC50Dataset_getitem ::
  "('w, 'f) torchaudio \<Rightarrow> 'w fs \<Rightarrow> ESC50Dataset \<Rightarrow> int \<Rightarrow> path list \<times> (error + ('f \<times> int))" where
  "ESC50Dataset_getitem lib disk ds index =
     (case iloc (csv ds) index of
        Inl e \<Rightarrow> ([], Inl e)
      | Inr r \<Rightarrow>
          (let file = path_join (path_join (path ds) ''audio'') (filename r)
           in case torchaudio_load disk file of
                Inl e \<Rightarrow> ([file], Inl e)
              | Inr (wav, _) \<Rightarrow>
                  (let label = target r;
                       xb = db_forward lib (db ds)
                              (melspec_forward lib (melspec ds)
                                 (resample_forward lib (resample ds) wav))
                   in ([file], Inr (xb, label)))))"

section \<open>The layers of torch.nn\<close>

text \<open>
  A layer object holds its configuration. A constructor allocates the parameters of the
  layer: it raises when a channel or feature count is negative, and, in the releases of
  the library that the repository was written against, also when a convolution has no
  input or output channel or a linear layer has no input feature (the initialisation
  of an empty weight fails there). Kernel sizes and paddings are the literals of the
  source.
\<close>

record Conv2d =
  in_channels :: int
  out_channels :: int
  kernel_size :: nat
  padding :: nat

record BatchNorm2d =
  num_features :: int

record MaxPool2d =
  pool_size :: nat

record Linear =
  in_features :: int
  out_features :: int

definition Conv2d_init :: "int \<Rightarrow> int \<Rightarrow> nat \<Rightarrow> nat \<Rightarrow> error + Conv2d" where
  "Conv2d_init cin cout k p =
     (if cin \<le> 0 \<or> cout \<le> 0 then Inl RuntimeError
      else Inr \<lparr> in_channels = cin, out_channels = cout, kernel_size = k, padding = p \<rparr>)"

definition BatchNorm2d_init :: "int \<Rightarrow> error + BatchNorm2d" where
  "BatchNorm2d_init n = (if n < 0 then Inl RuntimeError else Inr \<lparr> num_features = n \<rparr>)"

definition MaxPool2d_init :: "nat \<Rightarrow> error + MaxPool2d" where
  "MaxPool2d_init k = Inr \<lparr> pool_size = k \<rparr>"

definition Linear_init :: "int \<Rightarrow> int \<Rightarrow> error + Linear" where
  "Linear_init fin fout =
     (if fin \<le> 0 \<or> fout < 0 then Inl RuntimeError
      else Inr \<lparr> in_features = fin, out_features = fout \<rparr>)"

text \<open>Sequencing of calls that may raise: the first exception ends the sequence.\<close>

definition bind_err :: "error + 'a \<Rightarrow> ('a \<Rightarrow> error + 'b) \<Rightarrow> error + 'b" where
  "bind_err r k = (case r of Inl e \<Rightarrow> Inl e | Inr a \<Rightarrow> k a)"

section \<open>AudioNet\<close>

text \<open>\<open>cfg.model\<close>, the hyperparameters given to the network.\<close>

record optim_cfg =
  lr :: real

record model_cfg =
  base_filters :: int
  num_classes :: int
  optim :: optim_cfg

record AudioNet =
  hparams :: model_cfg
  training :: bool
  conv1 :: Conv2d
  bn1 :: BatchNorm2d
  conv2 :: Conv2d
  bn2 :: BatchNorm2d
  pool1 :: MaxPool2d
  conv3 :: Conv2d
  bn3 :: BatchNorm2d
  conv4 :: Conv2d
  bn4 :: BatchNorm2d
  pool2 :: MaxPool2d
  fc1 :: Linear

text \<open>
  \<open>AudioNet.__init__\<close>: the layers are constructed in the order of the source. A module
  is in training mode after construction.
\<close>

definition AudioNet_init :: "model_cfg \<Rightarrow> error + AudioNet" where
  "AudioNet_init hp =
     bind_err (Conv2d_init 1 (base_filters hp) 11 5) (\<lambda>c1.
     bind_err (BatchNorm2d_init (base_filters hp)) (\<lambda>b1.
     bind_err (Conv2d_init (base_filters hp) (base_filters hp) 3 1) (\<lambda>c2.
     bind_err (BatchNorm2d_init (base_filters hp)) (\<lambda>b2.
     bind_err (MaxPool2d_init 2) (\<lambda>p1.
     bind_err (Conv2d_init (base_filters hp) (base_filters hp * 2) 3 1) (\<lambda>c3.
     bind_err (BatchNorm2d_init (base_filters hp * 2)) (\<lambda>b3.
     bind_err (Conv2d_init (base_filters hp * 2) (base_filters hp * 4) 3 1) (\<lambda>c4.
     bind_err (BatchNorm2d_init (base_filters hp * 4)) (\<lambda>b4.
     bind_err (MaxPool2d_init 2) (\<lambda>p2.
     bind_err (Linear_init (base_filters hp * 4) (num_classes hp)) (\<lambda>f1.
     Inr \<lparr> hparams = hp, training = True,
           conv1 = c1, bn1 = b1, conv2 = c2, bn2 = b2, pool1 = p1,
           conv3 = c3, bn3 = b3, conv4 = c4, bn4 = b4, pool2 = p2,
           fc1 = f1 \<rparr>)))))))))))"

section \<open>Shapes through the forward pass\<close>

text \<open>
  The values of the tensors are floating point and the library's; their shapes are
  decided by the code. A shape is the list of the dimensions. The operations that
  \<open>forward\<close> applies are the constructors below; \<open>Softmax\<close> is the operation of the library
  that would turn logits into probabilities.
\<close>

type_synonym shape = "nat list"

datatype layer =
    Conv Conv2d
  | BatchNorm BatchNorm2d
  | ReLU
  | MaxPool MaxPool2d
  | AdaptiveAvgPool nat nat
  | Index00
  | Lin Linear
  | Softmax nat

text \<open>
  A convolution with stride 1 wants four dimensions and its own number of input
  channels, and a padded input at least as large as the kernel.
\<close>

definition conv_shape :: "Conv2d \<Rightarrow> shape \<Rightarrow> error + shape" where
  "conv_shape c s =
     (case s of
        [n, ch, h, w] \<Rightarrow>
          if int ch \<noteq> in_channels c then Inl RuntimeError
          else if h + 2 * padding c < kernel_size c \<or> w + 2 * padding c < kernel_size c
            then Inl RuntimeError
          else Inr [n, nat (out_channels c),
                    h + 2 * padding c - kernel_size c + 1,
                    w + 2 * padding c - kernel_size c + 1]
      | _ \<Rightarrow> Inl RuntimeError)"

text \<open>
  Batch normalisation wants four dimensions and its own number of channels; in training
  mode it refuses an input with exactly one value per channel.
\<close>

definition batchnorm_shape :: "bool \<Rightarrow> BatchNorm2d \<Rightarrow> shape \<Rightarrow> error + shape" where
  "batchnorm_shape train_mode b s =
     (case s of
        [n, ch, h, w] \<Rightarrow>
          if train_mode \<and> n * h * w = 1 then Inl ValueError
          else if int ch \<noteq> num_features b then Inl RuntimeError
          else Inr s
      | _ \<Rightarrow> Inl ValueError)"

text \<open>
  Max pooling with stride equal to the kernel and no padding: the output size is
  rounded down, and an output of size 0 is refused.
\<close>

definition maxpool_shape :: "MaxPool2d \<Rightarrow> shape \<Rightarrow> error + shape" where
  "maxpool_shape m s =
     (case s of
        [n, ch, h, w] \<Rightarrow>
          if pool_size m = 0 \<or> h < pool_size m \<or> w < pool_size m then Inl RuntimeError
          else Inr [n, ch, (h - pool_size m) div pool_size m + 1,
                           (w - pool_size m) div pool_size m + 1]
      | _ \<Rightarrow> Inl RuntimeError)"

definition avgpool_shape :: "nat \<Rightarrow> nat \<Rightarrow> shape \<Rightarrow> error + shape" where
  "avgpool_shape oh ow s =
     (case s of
        [n, ch, h, w] \<Rightarrow> if h = 0 \<or> w = 0 then Inl RuntimeError else Inr [n, ch, oh, ow]
      | _ \<Rightarrow> Inl RuntimeError)"

text \<open>\<open>x[:, :, 0, 0]\<close>: the first entry of each of the last two dimensions.\<close>

definition index00_shape :: "shape \<Rightarrow> error + shape" where
  "index00_shape s =
     (case s of
        [n, ch, h, w] \<Rightarrow> if h = 0 \<or> w = 0 then Inl IndexError else Inr [n, ch]
      | _ \<Rightarrow> Inl IndexError)"

definition linear_shape :: "Linear \<Rightarrow> shape \<Rightarrow> error + shape" where
  "linear_shape l s =
     (case s of
        [n, f] \<Rightarrow>
          if int f \<noteq> in_features l then Inl RuntimeError
          else Inr [n, nat (out_features l)]
      | _ \<Rightarrow> Inl RuntimeError)"

fun layer_shape :: "bool \<Rightarrow> layer \<Rightarrow> shape \<Rightarrow> error + shape" where
  "layer_shape t (Conv c) s = conv_shape c s"
| "layer_shape t (BatchNorm b) s = batchnorm_shape t b s"
| "layer_shape t ReLU s = Inr s"
| "layer_shape t (MaxPool m) s = maxpool_shape m s"
| "layer_shape t (AdaptiveAvgPool oh ow) s = avgpool_shape oh ow s"
| "layer_shape t Index00 s = index00_shape s"
| "layer_shape t (Lin l) s = linear_shape l s"
| "layer_shape t (Softmax d) s = Inr s"

fun run_layers :: "bool \<Rightarrow> layer list \<Rightarrow> shape \<Rightarrow> error + shape" where
  "run_layers t [] s = Inr s"
| "run_layers t (l # ls) s = bind_err (layer_shape t l s) (run_layers t ls)"

text \<open>
  \<open>AudioNet.forward\<close>, one operation for each application in the body, in its order.
\<close>

definition forward_layers :: "AudioNet \<Rightarrow> layer list" where
  "forward_layers net =
     [Conv (conv1 net), BatchNorm (bn1 net), ReLU,
      Conv (conv2 net), BatchNorm (bn2 net), ReLU,
      MaxPool (pool1 net),
      Conv (conv3 net), BatchNorm (bn3 net), ReLU,
      Conv (conv4 net), BatchNorm (bn4 net), ReLU,
      MaxPool (pool2 net),
      AdaptiveAvgPool 1 1,
      Index00,
      Lin (fc1 net)]"

definition forward_shape :: "AudioNet \<Rightarrow> shape \<Rightarrow> error + shape" where
  "forward_shape net s = run_layers (training net) (forward_layers net) s"

section \<open>The validation step\<close>

text \<open>
  \<open>torch.argmax(y_hat, dim=1)\<close> on a matrix of logits, one row for each sample: the
  position of the first greatest entry of each row. A row with no entry (no class) has
  no greatest entry and the call raises.
\<close>

fun argmax_from :: "real \<Rightarrow> nat \<Rightarrow> nat \<Rightarrow> real list \<Rightarrow> nat" where
  "argmax_from best besti i [] = besti"
| "argmax_from best besti i (x # xs) =
     (if best < x then argmax_from x i (Suc i) xs else argmax_from best besti (Suc i) xs)"

definition argmax_row :: "real list \<Rightarrow> error + int" where
  "argmax_row logits =
     (case logits of [] \<Rightarrow> Inl RuntimeError | x # xs \<Rightarrow> Inr (int (argmax_from x 0 1 xs)))"

fun argmax_dim1 :: "real list list \<Rightarrow> error + int list" where
  "argmax_dim1 [] = Inr []"
| "argmax_dim1 (r # rs) =
     bind_err (argmax_row r) (\<lambda>c. bind_err (argmax_dim1 rs) (\<lambda>cs. Inr (c # cs)))"

text \<open>
  \<open>functional.accuracy(pred, target)\<close> of pytorch_lightning.metrics, for two vectors of
  class ids: the number of positions where they agree, divided by the number of
  positions. Vectors of different lengths are refused. With no position the quotient
  is not defined and the library gives no accuracy (it raises or yields not-a-number,
  depending on its release).
\<close>

definition accuracy :: "int list \<Rightarrow> int list \<Rightarrow> error + real" where
  "accuracy pred tgt =
     (if length pred \<noteq> length tgt then Inl RuntimeError
      else if tgt = [] then Inl RuntimeError
      else Inr (real (length (filter (\<lambda>(p, t). p = t) (zip pred tgt))) / real (length tgt)))"

text \<open>An entry recorded by \<open>self.log\<close>, with the arguments that the code passes or leaves at their defaults.\<close>

record log_entry =
  name :: string
  val :: real
  on_step :: "bool option"
  on_epoch :: "bool option"
  prog_bar :: bool

definition log :: "string \<Rightarrow> real \<Rightarrow> bool option \<Rightarrow> bool option \<Rightarrow> bool \<Rightarrow> log_entry" where
  "log n v s e p = \<lparr> name = n, val = v, on_step = s, on_epoch = e, prog_bar = p \<rparr>"

text \<open>
  \<open>AudioNet.validation_step\<close>. The values that the network computes, \<open>self(x)\<close>, are a
  parameter: a function from the batch of inputs to the matrix of logits. The result
  is the value returned and the entries logged.
\<close>

definition validation_step ::
  "('x \<Rightarrow> error + real list list) \<Rightarrow> 'x \<times> int list \<Rightarrow> error + (real \<times> log_entry list)" where
  "validation_step self batch =
     (case batch of (x, y) \<Rightarrow>
        bind_err (self x) (\<lambda>y_hat.
        bind_err (argmax_dim1 y_hat) (\<lambda>y_hat.
        bind_err (accuracy y_hat y) (\<lambda>acc.
        Inr (acc, [log ''val_acc'' acc None (Some True) True])))))"

section \<open>The training entry point\<close>

text \<open>
  The configuration that hydra composes. \<open>'t\<close> is the type of \<open>cfg.trainer\<close>, which the
  code forwards to the trainer without reading it.
\<close>

record data_cfg =
  data_path :: path
  data_sample_rate :: int
  batch_size :: int
  train_folds :: "int list"
  val_folds :: "int list"
  test_folds :: "int list"

record 't cfg =
  seed :: int
  data :: data_cfg
  model :: model_cfg
  trainer :: 't

text \<open>The dictionary \<open>hparams_default\<close> given to \<open>wandb.init\<close>, and \<open>wandb.config\<close> read back.\<close>

record sweep_cfg =
  sweep_base_filters :: int
  sweep_lr :: real
  sweep_sample_rate :: int

record DataLoader =
  dataset :: ESC50Dataset
  loader_batch_size :: int
  shuffle :: bool

text \<open>
  \<open>torch.utils.data.DataLoader(dataset, batch_size, shuffle)\<close>: the batch sampler refuses
  a batch size that is not positive, and the random sampler of a shuffling loader
  refuses a dataset of length 0.
\<close>

definition DataLoader_init :: "ESC50Dataset \<Rightarrow> int \<Rightarrow> bool \<Rightarrow> error + DataLoader" where
  "DataLoader_init ds bs sh =
     (if sh \<and> ESC50Dataset_len ds = 0 then Inl ValueError
      else if bs \<le> 0 then Inl ValueError
      else Inr \<lparr> dataset = ds, loader_batch_size = bs, shuffle = sh \<rparr>)"

text \<open>
  What is outside the repository: the working directory that hydra reports, the values
  that the tracking service holds after \<open>wandb.init\<close> (the defaults, or what a sweep put
  in their place), the constructor of the trainer and its \<open>fit\<close>.
\<close>

record ('t, 'tr) env =
  get_original_cwd :: path
  wandb_config :: "sweep_cfg \<Rightarrow> sweep_cfg"
  Trainer_init :: "'t \<Rightarrow> error + 'tr"
  fit :: "'tr \<Rightarrow> AudioNet \<Rightarrow> DataLoader \<Rightarrow> DataLoader \<Rightarrow> error + unit"

text \<open>
  The calls that \<open>train\<close> makes to its collaborators and to the constructors of the
  repository, each with the arguments it receives; an argument left out appears with
  its default.
\<close>

datatype 't event =
    LoggerInfo "'t cfg"
  | WandbInit sweep_cfg
  | DatasetInit path int "int list"
  | DataLoaderInit ESC50Dataset int bool
  | SeedEverything int
  | WandbLoggerInit
  | AudioNetInit model_cfg
  | TrainerInit 't
  | Fit AudioNet DataLoader DataLoader

text \<open>
  One call: the event is recorded, then the call returns a value to the rest of the
  function or raises, which ends the function.
\<close>

definition call ::
  "'t event \<Rightarrow> error + 'a \<Rightarrow> ('a \<Rightarrow> 't event list \<times> (error + 'b)) \<Rightarrow> 't event list \<times> (error + 'b)" where
  "call ev r k =
     (case r of
        Inl e \<Rightarrow> ([ev], Inl e)
      | Inr a \<Rightarrow> (case k a of (evs, res) \<Rightarrow> (ev # evs, res)))"

text \<open>
  \<open>train\<close>. The result is the list of the calls made, in order, and what the function
  returns or raises.
\<close>

definition train :: "('t, 'tr) env \<Rightarrow> 'w fs \<Rightarrow> 't cfg \<Rightarrow> 't event list \<times> (error + unit)" where
  "train ext disk cfg0 =
     call (LoggerInfo cfg0) (Inr ()) (\<lambda>_.
     let hparams_default =
           \<lparr> sweep_base_filters = base_filters (model cfg0),
             sweep_lr = lr (optim (model cfg0)),
             sweep_sample_rate = data_sample_rate (data cfg0) \<rparr>
     in
     call (WandbInit hparams_default) (Inr ()) (\<lambda>_.
     let wandb_config_omega = wandb_config ext hparams_default;
         cfg = cfg0 \<lparr> data := (data cfg0) \<lparr> data_sample_rate := sweep_sample_rate wandb_config_omega \<rparr> \<rparr>;
         cfg = cfg \<lparr> model := (model cfg) \<lparr> base_filters := sweep_base_filters wandb_config_omega \<rparr> \<rparr>;
         cfg = cfg \<lparr> model := (model cfg) \<lparr> optim := (optim (model cfg)) \<lparr> lr := sweep_lr wandb_config_omega \<rparr> \<rparr> \<rparr>;
         p = path_join (get_original_cwd ext) (data_path (data cfg))
     in
     call (DatasetInit p default_sample_rate (train_folds (data cfg)))
          (ESC50Dataset_init disk p default_sample_rate (train_folds (data cfg))) (\<lambda>train_data.
     call (DatasetInit p default_sample_rate (val_folds (data cfg)))
          (ESC50Dataset_init disk p default_sample_rate (val_folds (data cfg))) (\<lambda>val_data.
     call (DatasetInit p default_sample_rate (test_folds (data cfg)))
          (ESC50Dataset_init disk p default_sample_rate (test_folds (data cfg))) (\<lambda>test_data.
     call (DataLoaderInit train_data (batch_size (data cfg)) True)
          (DataLoader_init train_data (batch_size (data cfg)) True) (\<lambda>train_loader.
     call (DataLoaderInit val_data (batch_size (data cfg)) False)
          (DataLoader_init val_data (batch_size (data cfg)) False) (\<lambda>val_loader.
     call (DataLoaderInit test_data (batch_size (data cfg)) False)
          (DataLoader_init test_data (batch_size (data cfg)) False) (\<lambda>test_loader.
     call (SeedEverything (seed cfg)) (Inr ()) (\<lambda>_.
     call WandbLoggerInit (Inr ()) (\<lambda>wandb_logger.
     call (AudioNetInit (model cfg)) (AudioNet_init (model cfg)) (\<lambda>audionet.
     call (TrainerInit (trainer cfg)) (Trainer_init ext (trainer cfg)) (\<lambda>trainer_obj.
     call (Fit audionet train_loader val_loader)
          (fit ext trainer_obj audionet train_loader val_loader) (\<lambda>_.
     ([], Inr ()))))))))))))))"

text \<open>The kind of a call, without its arguments.\<close>

datatype kind = KLoggerInfo | KWandbInit | KDatasetInit | KDataLoaderInit | KSeedEverything
  | KWandbLoggerInit | KAudioNetInit | KTrainerInit | KFit

fun kind_of :: "'t event \<Rightarrow> kind" where
  "kind_of (LoggerInfo _) = KLoggerInfo"
| "kind_of (WandbInit _) = KWandbInit"
| "kind_of (DatasetInit _ _ _) = KDatasetInit"
| "kind_of (DataLoaderInit _ _ _) = KDataLoaderInit"
| "kind_of (SeedEverything _) = KSeedEverything"
| "kind_of WandbLoggerInit = KWandbLoggerInit"
| "kind_of (AudioNetInit _) = KAudioNetInit"
| "kind_of (TrainerInit _) = KTrainerInit"
| "kind_of (Fit _ _ _) = KFit"

text \<open>
  The calls of a run of \<open>train\<close> in which nothing raises, in the order of the statements
  of its body.
\<close>

definition train_calls :: "kind list" where
  "train_calls =
     [KLoggerInfo, KWandbInit,
      KDatasetInit, KDatasetInit, KDatasetInit,
      KDataLoaderInit, KDataLoaderInit, KDataLoaderInit,
      KSeedEverything, KWandbLoggerInit, KAudioNetInit, KTrainerInit, KFit]"

text \<open>
  \<open>occurs_before a b ks\<close>: a call of kind \<open>b\<close> is made, and a call of kind \<open>a\<close> is made
  before the first one of kind \<open>b\<close>.
\<close>

definition occurs_before :: "kind \<Rightarrow> kind \<Rightarrow> kind list \<Rightarrow> bool" where
  "occurs_before a b ks = (b \<in> set ks \<and> a \<in> set (takeWhile (\<lambda>k. k \<noteq> b) ks))"

text \<open>The calls that construct a dataset or a loader.\<close>

definition builds_data :: "'t event \<Rightarrow> bool" where
  "builds_data e = (kind_of e = KDatasetInit \<or> kind_of e = KDataLoaderInit)"

text \<open>
  The directory of the data, and the hyperparameters of the network after the values
  of the tracking service are written into the configuration.
\<close>

definition data_dir :: "('t, 'tr) env \<Rightarrow> 't cfg \<Rightarrow> path" where
  "data_dir ext cfg = path_join (get_original_cwd ext) (data_path (data cfg))"

definition tracked_defaults :: "'t cfg \<Rightarrow> sweep_cfg" where
  "tracked_defaults cfg =
     \<lparr> sweep_base_filters = base_filters (model cfg),
       sweep_lr = lr (optim (model cfg)),
       sweep_sample_rate = data_sample_rate (data cfg) \<rparr>"

definition swept_model :: "('t, 'tr) env \<Rightarrow> 't cfg \<Rightarrow> model_cfg" where
  "swept_model ext cfg =
     (model cfg)
       \<lparr> base_filters := sweep_base_filters (wandb_config ext (tracked_defaults cfg)),
         optim := (optim (model cfg)) \<lparr> lr := sweep_lr (wandb_config ext (tracked_defaults cfg)) \<rparr> \<rparr>"

text \<open>
  The calls of a run in which nothing raises, with their arguments, for given
  datasets, loaders and network: the configuration as resolved is logged and its three
  hyperparameters go to the tracking service; the datasets are constructed for the
  training, validation and test folds of the configuration, at the default rate; the
  loaders wrap them with the batch size of the configuration, the training loader
  shuffling; the seed of the configuration is set; the network is constructed from the
  hyperparameters after the sweep; \<open>fit\<close> receives the network and the training and
  validation loaders.
\<close>

definition train_events ::
  "('t, 'tr) env \<Rightarrow> 't cfg \<Rightarrow> ESC50Dataset \<Rightarrow> ESC50Dataset \<Rightarrow> ESC50Dataset
     \<Rightarrow> DataLoader \<Rightarrow> DataLoader \<Rightarrow> AudioNet \<Rightarrow> 't event list" where
  "train_events ext cfg train_data val_data test_data train_loader val_loader audionet =
     [LoggerInfo cfg,
      WandbInit (tracked_defaults cfg),
      DatasetInit (data_dir ext cfg) 8000 (train_folds (data cfg)),
      DatasetInit (data_dir ext cfg) 8000 (val_folds (data cfg)),
      DatasetInit (data_dir ext cfg) 8000 (test_folds (data cfg)),
      DataLoaderInit train_data (batch_size (data cfg)) True,
      DataLoaderInit val_data (batch_size (data cfg)) False,
      DataLoaderInit test_data (batch_size (data cfg)) False,
      SeedEverything (seed cfg),
      WandbLoggerInit,
      AudioNetInit (swept_model ext cfg),
      TrainerInit (trainer cfg),
      Fit audionet train_loader val_loader]"

section \<open>A small installation\<close>

text \<open>
  Concrete values on which the theorems below are evaluated: a manifest of four rows, a
  disk that holds it and two of the audio files (the file of the second row is
  missing, and the third file is stored at 22050 Hz), and stand-ins for the three
  transforms on waveforms that are lists of integers.
\<close>

definition example_manifest :: "row list" where
  "example_manifest =
     [\<lparr> filename = ''a.wav'', fold_id = 1, target = 0 \<rparr>,
      \<lparr> filename = ''b.wav'', fold_id = 2, target = 3 \<rparr>,
      \<lparr> filename = ''c.wav'', fold_id = 1, target = 7 \<rparr>,
      \<lparr> filename = ''d.wav'', fold_id = 5, target = 2 \<rparr>]"

definition example_disk :: "int list fs" where
  "example_disk =
     \<lparr> csv_files = [''/repo/data/meta/esc50.csv'' \<mapsto> example_manifest],
       audio_files = [''/repo/data/audio/a.wav'' \<mapsto> ([1, 2, 3, 4], 44100),
                      ''/repo/data/audio/c.wav'' \<mapsto> ([5, 6], 22050)] \<rparr>"

definition example_lib :: "(int list, int) torchaudio" where
  "example_lib =
     \<lparr> resample_forward = (\<lambda>c w. map (\<lambda>x. x * new_freq c + orig_freq c) w),
       melspec_forward = (\<lambda>c w. sum_list w + sample_rate c),
       db_forward = (\<lambda>c f. f - top_db c) \<rparr>"

definition example_dataset :: ESC50Dataset where
  "example_dataset =
     \<lparr> path = ''/repo/data'',
       csv = [\<lparr> filename = ''a.wav'', fold_id = 1, target = 0 \<rparr>,
              \<lparr> filename = ''b.wav'', fold_id = 2, target = 3 \<rparr>,
              \<lparr> filename = ''c.wav'', fold_id = 1, target = 7 \<rparr>],
       resample = \<lparr> orig_freq = 44100, new_freq = 8000 \<rparr>,
       melspec = \<lparr> sample_rate = 8000 \<rparr>,
       db = \<lparr> top_db = 80 \<rparr> \<rparr>"

text \<open>The hyperparameters of a network of width 32 for the 50 classes of ESC-50.\<close>

definition example_hparams :: model_cfg where
  "example_hparams = \<lparr> base_filters = 32, num_classes = 50, optim = \<lparr> lr = 1 / 1000 \<rparr> \<rparr>"

text \<open>
  A run of the entry point from the directory \<open>/repo\<close>: the configuration asks for a
  sample rate of 22050, a sweep puts 16000 in its place, and the trainer and its \<open>fit\<close>
  raise nothing.
\<close>

definition example_cfg :: "unit cfg" where
  "example_cfg =
     \<lparr> seed = 42,
       data = \<lparr> data_path = ''data'', data_sample_rate = 22050, batch_size = 2,
                train_folds = [1], val_folds = [2], test_folds = [5] \<rparr>,
       model = example_hparams,
       trainer = () \<rparr>"

definition example_env :: "(unit, unit) env" where
  "example_env =
     \<lparr> get_original_cwd = ''/repo'',
       wandb_config = (\<lambda>d. d \<lparr> sweep_sample_rate := 16000 \<rparr>),
       Trainer_init = (\<lambda>_. Inr ()),
       fit = (\<lambda>_ _ _ _. Inr ()) \<rparr>"

section \<open>Properties of the dataset\<close>

lemma matching_positions:
  "length (filter P xs) = card {i. i < length xs \<and> P (xs ! i)}"
  by (rule length_filter_conv_card)

lemma example_dataset_built:
  "ESC50Dataset_init example_disk ''/repo/data'' 8000 [1, 2] = Inr example_dataset"
  by (simp add: ESC50Dataset_init_def read_csv_def path_join_def example_disk_def
      example_manifest_def example_dataset_def isin_def)

lemma init_fields:
  assumes "ESC50Dataset_init disk p sr folds = Inr ds"
  shows "\<exists>rows. csv_files disk (path_join p ''meta/esc50.csv'') = Some rows
           \<and> ds = \<lparr> path = p, csv = filter (\<lambda>r. fold_id r \<in> set folds) rows,
                     resample = \<lparr> orig_freq = 44100, new_freq = sr \<rparr>,
                     melspec = \<lparr> sample_rate = sr \<rparr>, db = \<lparr> top_db = 80 \<rparr> \<rparr>"
  using assms
  by (auto simp: ESC50Dataset_init_def read_csv_def isin_def split: option.splits)

lemma iloc_in_range:
  assumes "0 \<le> i" and "i < int (length rows)"
  shows "iloc rows i = Inr (rows ! nat i)"
  using assms by (simp add: iloc_def Let_def)

lemma getitem_of_row:
  assumes "iloc (csv ds) index = Inr r"
  shows "ESC50Dataset_getitem lib disk ds index =
           (let file = path_join (path_join (path ds) ''audio'') (filename r)
            in case audio_files disk file of
                 None \<Rightarrow> ([file], Inl LoadError)
               | Some (wav, rate) \<Rightarrow>
                   ([file], Inr (db_forward lib (db ds)
                                   (melspec_forward lib (melspec ds)
                                      (resample_forward lib (resample ds) wav)),
                                 target r)))"
  using assms
  by (simp add: ESC50Dataset_getitem_def torchaudio_load_def Let_def split: option.splits)

text \<open>
  C1. Whatever the manifest found at \<open>meta/esc50.csv\<close> and whatever the folds passed,
  construction succeeds and the length of the dataset is the number of positions of
  the manifest whose row has its fold among the folds passed; when no row has, the
  length is 0.
\<close>

theorem ESC50Dataset_len_counts_folds:
  assumes "csv_files disk (path_join p ''meta/esc50.csv'') = Some manifest"
  shows "\<exists>ds. ESC50Dataset_init disk p sr folds = Inr ds
           \<and> ESC50Dataset_len ds
               = int (card {i. i < length manifest \<and> fold_id (manifest ! i) \<in> set folds})
           \<and> ((\<forall>r \<in> set manifest. fold_id r \<notin> set folds) \<longrightarrow> ESC50Dataset_len ds = 0)"
proof -
  let ?kept = "filter (\<lambda>r. isin (fold_id r) folds) manifest"
  let ?ds = "\<lparr> path = p, csv = ?kept,
               resample = \<lparr> orig_freq = 44100, new_freq = sr \<rparr>,
               melspec = \<lparr> sample_rate = sr \<rparr>, db = \<lparr> top_db = 80 \<rparr> \<rparr>"
  have built: "ESC50Dataset_init disk p sr folds = Inr ?ds"
    using assms by (simp add: ESC50Dataset_init_def read_csv_def)
  have count: "ESC50Dataset_len ?ds
                 = int (card {i. i < length manifest \<and> fold_id (manifest ! i) \<in> set folds})"
    by (simp add: ESC50Dataset_len_def isin_def matching_positions)
  have none: "(\<forall>r \<in> set manifest. fold_id r \<notin> set folds) \<longrightarrow> ESC50Dataset_len ?ds = 0"
    by (simp add: ESC50Dataset_len_def isin_def filter_empty_conv)
  from built count none show ?thesis by blast
qed

text \<open>
  The example manifest with folds 1 and 2 gives a dataset of length 3, and with fold 4,
  which no row has, a dataset of length 0.
\<close>

theorem ESC50Dataset_len_counts_folds_witness:
  "csv_files example_disk (path_join ''/repo/data'' ''meta/esc50.csv'') = Some example_manifest
   \<and> (\<exists>ds. ESC50Dataset_init example_disk ''/repo/data'' 8000 [1, 2] = Inr ds
          \<and> ESC50Dataset_len ds = 3)
   \<and> (\<exists>ds. ESC50Dataset_init example_disk ''/repo/data'' 8000 [4] = Inr ds
          \<and> ESC50Dataset_len ds = 0)"
proof -
  have h: "csv_files example_disk (path_join ''/repo/data'' ''meta/esc50.csv'') = Some example_manifest"
    by (simp add: example_disk_def path_join_def)
  have none4: "\<forall>r \<in> set example_manifest. fold_id r \<notin> set [4]"
    by (simp add: example_manifest_def)
  from ESC50Dataset_len_counts_folds [OF h, of 8000 "[4]"] none4
  have empty: "\<exists>ds. ESC50Dataset_init example_disk ''/repo/data'' 8000 [4] = Inr ds
                 \<and> ESC50Dataset_len ds = 0"
    by blast
  have three: "\<exists>ds. ESC50Dataset_init example_disk ''/repo/data'' 8000 [1, 2] = Inr ds
                 \<and> ESC50Dataset_len ds = 3"
    by (simp add: example_dataset_built ESC50Dataset_len_def example_dataset_def)
  from h three empty show ?thesis by blast
qed

text \<open>
  C2. For a dataset constructed from a manifest and an index from 0 up to its length,
  when the audio file of the index-th retained row loads, \<open>__getitem__\<close> loads that
  file and no other, and returns the waveform passed through the resampling from
  44100 Hz to the configured rate, then the mel spectrogram at the configured rate,
  then the conversion to decibels with \<open>top_db\<close> 80, together with the target of that
  row. Each stage is applied to its input and its own configuration only.
\<close>

theorem getitem_returns_transformed_row:
  assumes "csv_files disk (path_join p ''meta/esc50.csv'') = Some manifest"
    and "ESC50Dataset_init disk p sr folds = Inr ds"
    and "0 \<le> index" and "index < ESC50Dataset_len ds"
    and "audio_files disk
           (path_join (path_join p ''audio'')
              (filename (filter (\<lambda>r. fold_id r \<in> set folds) manifest ! nat index)))
         = Some (wav, rate)"
  shows "ESC50Dataset_getitem lib disk ds index =
           ([path_join (path_join p ''audio'')
               (filename (filter (\<lambda>r. fold_id r \<in> set folds) manifest ! nat index))],
            Inr (db_forward lib \<lparr> top_db = 80 \<rparr>
                   (melspec_forward lib \<lparr> sample_rate = sr \<rparr>
                      (resample_forward lib \<lparr> orig_freq = 44100, new_freq = sr \<rparr> wav)),
                 target (filter (\<lambda>r. fold_id r \<in> set folds) manifest ! nat index)))"
proof -
  let ?kept = "filter (\<lambda>r. fold_id r \<in> set folds) manifest"
  from init_fields [OF assms(2)] assms(1)
  have ds: "ds = \<lparr> path = p, csv = ?kept,
                   resample = \<lparr> orig_freq = 44100, new_freq = sr \<rparr>,
                   melspec = \<lparr> sample_rate = sr \<rparr>, db = \<lparr> top_db = 80 \<rparr> \<rparr>"
    by auto
  have "index < int (length (csv ds))"
    using assms(4) by (simp add: ESC50Dataset_len_def)
  with assms(3) have "iloc (csv ds) index = Inr (csv ds ! nat index)"
    by (rule iloc_in_range)
  then have row: "iloc (csv ds) index = Inr (?kept ! nat index)"
    by (simp add: ds)
  show ?thesis
    using assms(5) by (simp add: getitem_of_row [OF row] Let_def) (simp add: ds)
qed

theorem getitem_returns_transformed_row_witness:
  "ESC50Dataset_getitem example_lib example_disk example_dataset 2 =
     ([''/repo/data/audio/c.wav''], Inr (184120, 7))"
proof -
  have m: "csv_files example_disk (path_join ''/repo/data'' ''meta/esc50.csv'') = Some example_manifest"
    by (simp add: example_disk_def path_join_def)
  have kept: "filter (\<lambda>r. fold_id r \<in> set [1, 2]) example_manifest = csv example_dataset"
    by (simp add: example_manifest_def example_dataset_def)
  have len: "(2::int) < ESC50Dataset_len example_dataset"
    by (simp add: ESC50Dataset_len_def example_dataset_def)
  have audio: "audio_files example_disk
                (path_join (path_join ''/repo/data'' ''audio'')
                   (filename (filter (\<lambda>r. fold_id r \<in> set [1, 2]) example_manifest ! nat 2)))
              = Some ([5, 6], 22050)"
    unfolding kept by (simp add: example_dataset_def example_disk_def path_join_def)
  from getitem_returns_transformed_row
         [OF m example_dataset_built _ len audio, of example_lib]
  show ?thesis
    unfolding kept by (simp add: example_dataset_def example_lib_def path_join_def)
qed

text \<open>
  What a retrieval depends on: datasets constructed with the same arguments over two
  disks that hold the same manifest are equal, and when the two disks also hold the
  same audio file for the row at the index, the retrievals read the same file and
  give the same result. No other file enters.
\<close>

lemma getitem_depends_on_row_file:
  assumes "csv_files disk1 (path_join p ''meta/esc50.csv'')
             = csv_files disk2 (path_join p ''meta/esc50.csv'')"
    and "ESC50Dataset_init disk1 p sr folds = Inr ds1"
    and "ESC50Dataset_init disk2 p sr folds = Inr ds2"
    and "\<forall>r. iloc (csv ds1) index = Inr r \<longrightarrow>
           audio_files disk1 (path_join (path_join p ''audio'') (filename r))
             = audio_files disk2 (path_join (path_join p ''audio'') (filename r))"
  shows "ds1 = ds2
           \<and> ESC50Dataset_getitem lib disk1 ds1 index = ESC50Dataset_getitem lib disk2 ds2 index"
proof -
  from init_fields [OF assms(2)] init_fields [OF assms(3)] assms(1)
  have same: "ds1 = ds2" and p: "path ds1 = p"
    by auto
  have "ESC50Dataset_getitem lib disk1 ds1 index = ESC50Dataset_getitem lib disk2 ds1 index"
  proof (cases "iloc (csv ds1) index")
    case (Inl e)
    then show ?thesis by (simp add: ESC50Dataset_getitem_def)
  next
    case (Inr r)
    with assms(4) have "audio_files disk1 (path_join (path_join p ''audio'') (filename r))
                          = audio_files disk2 (path_join (path_join p ''audio'') (filename r))"
      by blast
    then show ?thesis
      by (simp add: getitem_of_row [OF Inr] p)
  qed
  with same show ?thesis by simp
qed

text \<open>
  C8. When the audio file of the row at a valid index is missing or unreadable,
  \<open>__getitem__\<close> asks the loader for that file once and raises the loader's error: it
  returns no pair of features and label, and it tries no other file.
\<close>

theorem getitem_missing_file_raises:
  assumes "0 \<le> index" and "index < ESC50Dataset_len ds"
    and "audio_files disk
           (path_join (path_join (path ds) ''audio'') (filename (csv ds ! nat index))) = None"
  shows "ESC50Dataset_getitem lib disk ds index =
           ([path_join (path_join (path ds) ''audio'') (filename (csv ds ! nat index))],
            Inl LoadError)"
proof -
  have "index < int (length (csv ds))"
    using assms(2) by (simp add: ESC50Dataset_len_def)
  with assms(1) have row: "iloc (csv ds) index = Inr (csv ds ! nat index)"
    by (rule iloc_in_range)
  show ?thesis
    using assms(3) by (simp add: getitem_of_row [OF row] Let_def)
qed

text \<open>The file of the row at index 1 of the example dataset is not on the example disk.\<close>

theorem getitem_missing_file_raises_witness:
  "ESC50Dataset_getitem example_lib example_disk example_dataset 1
     = ([''/repo/data/audio/b.wav''], Inl LoadError)"
proof -
  have len: "(1::int) < ESC50Dataset_len example_dataset"
    by (simp add: ESC50Dataset_len_def example_dataset_def)
  have missing: "audio_files example_disk
                   (path_join (path_join (path example_dataset) ''audio'')
                      (filename (csv example_dataset ! nat 1))) = None"
    by (simp add: example_dataset_def example_disk_def path_join_def)
  from getitem_missing_file_raises [OF _ len missing, of example_lib]
  show ?thesis
    by (simp add: example_dataset_def path_join_def)
qed

text \<open>
  C9. Every dataset that the constructor builds resamples from 44100 Hz: the sample
  rate that the loader reports for a file does not enter the result. Two disks that
  hold the same waveform for the file of the row, at whatever two rates, give the same
  item, which is computed with \<open>orig_freq\<close> 44100.
\<close>

theorem getitem_ignores_file_sample_rate:
  assumes "ESC50Dataset_init disk0 p sr folds = Inr ds"
    and "iloc (csv ds) index = Inr r"
    and "audio_files disk1 (path_join (path_join p ''audio'') (filename r)) = Some (wav, rate1)"
    and "audio_files disk2 (path_join (path_join p ''audio'') (filename r)) = Some (wav, rate2)"
  shows "orig_freq (resample ds) = 44100
           \<and> ESC50Dataset_getitem lib disk1 ds index = ESC50Dataset_getitem lib disk2 ds index
           \<and> snd (ESC50Dataset_getitem lib disk1 ds index)
               = Inr (db_forward lib (db ds)
                        (melspec_forward lib (melspec ds)
                           (resample_forward lib \<lparr> orig_freq = 44100, new_freq = sr \<rparr> wav)),
                      target r)"
proof -
  from init_fields [OF assms(1)]
  have p: "path ds = p" and rs: "resample ds = \<lparr> orig_freq = 44100, new_freq = sr \<rparr>"
    by auto
  from rs have "orig_freq (resample ds) = 44100" by simp
  moreover have "ESC50Dataset_getitem lib disk1 ds index = ESC50Dataset_getitem lib disk2 ds index"
    using assms(3,4) by (simp add: getitem_of_row [OF assms(2)] p)
  moreover have "snd (ESC50Dataset_getitem lib disk1 ds index)
               = Inr (db_forward lib (db ds)
                        (melspec_forward lib (melspec ds)
                           (resample_forward lib \<lparr> orig_freq = 44100, new_freq = sr \<rparr> wav)),
                      target r)"
    using assms(3) by (simp add: getitem_of_row [OF assms(2)] p rs)
  ultimately show ?thesis by blast
qed

text \<open>
  The third file of the example disk is stored at 22050 Hz; stored at 8000 Hz it gives
  the same item, the one computed from 44100 Hz.
\<close>

theorem getitem_ignores_file_sample_rate_witness:
  "ESC50Dataset_getitem example_lib example_disk example_dataset 2
     = ESC50Dataset_getitem example_lib
         (example_disk \<lparr> audio_files := [''/repo/data/audio/c.wav'' \<mapsto> ([5, 6], 8000)] \<rparr>)
         example_dataset 2
   \<and> snd (ESC50Dataset_getitem example_lib example_disk example_dataset 2)
       = Inr (db_forward example_lib \<lparr> top_db = 80 \<rparr>
                (melspec_forward example_lib \<lparr> sample_rate = 8000 \<rparr>
                   (resample_forward example_lib \<lparr> orig_freq = 44100, new_freq = 8000 \<rparr> [5, 6])),
              7)"
proof -
  let ?disk2 = "example_disk \<lparr> audio_files := [''/repo/data/audio/c.wav'' \<mapsto> ([5, 6], 8000)] \<rparr>"
  have row2: "iloc (csv example_dataset) 2 = Inr \<lparr> filename = ''c.wav'', fold_id = 1, target = 7 \<rparr>"
    by (simp add: iloc_def example_dataset_def)
  have f1: "audio_files example_disk
              (path_join (path_join ''/repo/data'' ''audio'')
                 (filename \<lparr> filename = ''c.wav'', fold_id = 1, target = 7 \<rparr>))
            = Some ([5, 6], 22050)"
    by (simp add: example_disk_def path_join_def)
  have f2: "audio_files ?disk2
              (path_join (path_join ''/repo/data'' ''audio'')
                 (filename \<lparr> filename = ''c.wav'', fold_id = 1, target = 7 \<rparr>))
            = Some ([5, 6], 8000)"
    by (simp add: path_join_def)
  note inst = getitem_ignores_file_sample_rate [OF example_dataset_built row2 f1 f2, of example_lib]
  from inst
  have same: "ESC50Dataset_getitem example_lib example_disk example_dataset 2
                = ESC50Dataset_getitem example_lib ?disk2 example_dataset 2"
    by (rule conjunct1 [OF conjunct2])
  from inst
  have "snd (ESC50Dataset_getitem example_lib example_disk example_dataset 2)
          = Inr (db_forward example_lib (db example_dataset)
                   (melspec_forward example_lib (melspec example_dataset)
                      (resample_forward example_lib \<lparr> orig_freq = 44100, new_freq = 8000 \<rparr> [5, 6])),
                 target \<lparr> filename = ''c.wav'', fold_id = 1, target = 7 \<rparr>)"
    by (rule conjunct2 [OF conjunct2])
  moreover have "db example_dataset = \<lparr> top_db = 80 \<rparr>"
    and "melspec example_dataset = \<lparr> sample_rate = 8000 \<rparr>"
    by (simp_all add: example_dataset_def)
  ultimately
  have val: "snd (ESC50Dataset_getitem example_lib example_disk example_dataset 2)
          = Inr (db_forward example_lib \<lparr> top_db = 80 \<rparr>
                   (melspec_forward example_lib \<lparr> sample_rate = 8000 \<rparr>
                      (resample_forward example_lib \<lparr> orig_freq = 44100, new_freq = 8000 \<rparr> [5, 6])),
                 7)"
    by simp
  from same val show ?thesis by (rule conjI)
qed

section \<open>Properties of the network\<close>

lemma bind_err_Inr [simp]: "bind_err (Inr a) k = k a"
  by (simp add: bind_err_def)

lemma bind_err_Inl [simp]: "bind_err (Inl e) k = Inl e"
  by (simp add: bind_err_def)

text \<open>The network that construction gives, and when it gives one.\<close>

lemma AudioNet_init_valid:
  assumes "0 < base_filters hp" and "0 \<le> num_classes hp"
  shows "AudioNet_init hp =
     Inr \<lparr> hparams = hp, training = True,
       conv1 = \<lparr> in_channels = 1, out_channels = base_filters hp, kernel_size = 11, padding = 5 \<rparr>,
       bn1 = \<lparr> num_features = base_filters hp \<rparr>,
       conv2 = \<lparr> in_channels = base_filters hp, out_channels = base_filters hp,
                 kernel_size = 3, padding = 1 \<rparr>,
       bn2 = \<lparr> num_features = base_filters hp \<rparr>,
       pool1 = \<lparr> pool_size = 2 \<rparr>,
       conv3 = \<lparr> in_channels = base_filters hp, out_channels = base_filters hp * 2,
                 kernel_size = 3, padding = 1 \<rparr>,
       bn3 = \<lparr> num_features = base_filters hp * 2 \<rparr>,
       conv4 = \<lparr> in_channels = base_filters hp * 2, out_channels = base_filters hp * 4,
                 kernel_size = 3, padding = 1 \<rparr>,
       bn4 = \<lparr> num_features = base_filters hp * 4 \<rparr>,
       pool2 = \<lparr> pool_size = 2 \<rparr>,
       fc1 = \<lparr> in_features = base_filters hp * 4, out_features = num_classes hp \<rparr> \<rparr>"
  using assms
  by (simp add: AudioNet_init_def Conv2d_init_def BatchNorm2d_init_def MaxPool2d_init_def
      Linear_init_def)

lemma AudioNet_init_invalid:
  assumes "\<not> (0 < base_filters hp \<and> 0 \<le> num_classes hp)"
  shows "AudioNet_init hp = Inl RuntimeError"
  using assms
  by (auto simp: AudioNet_init_def Conv2d_init_def BatchNorm2d_init_def MaxPool2d_init_def
      Linear_init_def)

lemma AudioNet_init_fields:
  assumes "AudioNet_init hp = Inr net"
  shows "0 < base_filters hp \<and> 0 \<le> num_classes hp \<and> net =
     \<lparr> hparams = hp, training = True,
       conv1 = \<lparr> in_channels = 1, out_channels = base_filters hp, kernel_size = 11, padding = 5 \<rparr>,
       bn1 = \<lparr> num_features = base_filters hp \<rparr>,
       conv2 = \<lparr> in_channels = base_filters hp, out_channels = base_filters hp,
                 kernel_size = 3, padding = 1 \<rparr>,
       bn2 = \<lparr> num_features = base_filters hp \<rparr>,
       pool1 = \<lparr> pool_size = 2 \<rparr>,
       conv3 = \<lparr> in_channels = base_filters hp, out_channels = base_filters hp * 2,
                 kernel_size = 3, padding = 1 \<rparr>,
       bn3 = \<lparr> num_features = base_filters hp * 2 \<rparr>,
       conv4 = \<lparr> in_channels = base_filters hp * 2, out_channels = base_filters hp * 4,
                 kernel_size = 3, padding = 1 \<rparr>,
       bn4 = \<lparr> num_features = base_filters hp * 4 \<rparr>,
       pool2 = \<lparr> pool_size = 2 \<rparr>,
       fc1 = \<lparr> in_features = base_filters hp * 4, out_features = num_classes hp \<rparr> \<rparr>"
proof (cases "0 < base_filters hp \<and> 0 \<le> num_classes hp")
  case True
  with assms AudioNet_init_valid [of hp] show ?thesis by simp
next
  case False
  with assms AudioNet_init_invalid [of hp] show ?thesis by simp
qed

text \<open>
  C4. For every positive \<open>base_filters\<close>, with a number of classes that is not negative,
  the construction of the network raises nothing, and the final linear layer takes
  \<open>4 * base_filters\<close> input features.
\<close>

theorem AudioNet_init_positive_base_filters:
  assumes "0 < base_filters hp" and "0 \<le> num_classes hp"
  shows "\<exists>net. AudioNet_init hp = Inr net \<and> in_features (fc1 net) = 4 * base_filters hp"
proof -
  from AudioNet_init_valid [OF assms]
  show ?thesis by simp
qed

theorem AudioNet_init_positive_base_filters_witness:
  "\<exists>net. AudioNet_init example_hparams = Inr net \<and> in_features (fc1 net) = 128"
proof -
  have "0 < base_filters example_hparams" and "0 \<le> num_classes example_hparams"
    by (simp_all add: example_hparams_def)
  from AudioNet_init_positive_base_filters [OF this]
  show ?thesis by (simp add: example_hparams_def)
qed

text \<open>
  The shape after each part of the forward pass, for a network as constructed. Two
  poolings by 2 leave at least one row and one column when the input has at least 4 of
  each.
\<close>

lemma mult3_ne_1:
  fixes n h w :: nat
  assumes "2 \<le> h"
  shows "n * h * w \<noteq> 1"
  using assms by auto

lemma forward_shape_built:
  assumes "AudioNet_init hp = Inr net0" and "4 \<le> h" and "4 \<le> w"
  shows "forward_shape (net0 \<lparr> training := mode \<rparr>) [n, 1, h, w] = Inr [n, nat (num_classes hp)]"
proof -
  from AudioNet_init_fields [OF assms(1)]
  have F: "0 < base_filters hp" and C: "0 \<le> num_classes hp" and net: "net0 =
     \<lparr> hparams = hp, training = True,
       conv1 = \<lparr> in_channels = 1, out_channels = base_filters hp, kernel_size = 11, padding = 5 \<rparr>,
       bn1 = \<lparr> num_features = base_filters hp \<rparr>,
       conv2 = \<lparr> in_channels = base_filters hp, out_channels = base_filters hp,
                 kernel_size = 3, padding = 1 \<rparr>,
       bn2 = \<lparr> num_features = base_filters hp \<rparr>,
       pool1 = \<lparr> pool_size = 2 \<rparr>,
       conv3 = \<lparr> in_channels = base_filters hp, out_channels = base_filters hp * 2,
                 kernel_size = 3, padding = 1 \<rparr>,
       bn3 = \<lparr> num_features = base_filters hp * 2 \<rparr>,
       conv4 = \<lparr> in_channels = base_filters hp * 2, out_channels = base_filters hp * 4,
                 kernel_size = 3, padding = 1 \<rparr>,
       bn4 = \<lparr> num_features = base_filters hp * 4 \<rparr>,
       pool2 = \<lparr> pool_size = 2 \<rparr>,
       fc1 = \<lparr> in_features = base_filters hp * 4, out_features = num_classes hp \<rparr> \<rparr>"
    by simp_all
  have h1: "2 \<le> (h - 2) div 2 + 1" and w1: "2 \<le> (w - 2) div 2 + 1"
    using assms(2,3) by simp_all
  have t1: "n * h * w \<noteq> 1"
    using assms(2) by (intro mult3_ne_1) simp
  have t2: "n * ((h - 2) div 2 + 1) * ((w - 2) div 2 + 1) \<noteq> 1"
    using h1 by (rule mult3_ne_1)
  show ?thesis
    using F C assms(2,3) h1 w1 t1 t2
    by (simp add: net forward_shape_def forward_layers_def conv_shape_def batchnorm_shape_def
        maxpool_shape_def avgpool_shape_def index00_shape_def linear_shape_def)
qed

lemma forward_shape_too_small:
  assumes "AudioNet_init hp = Inr net0" and "h < 4 \<or> w < 4"
  shows "isl (forward_shape (net0 \<lparr> training := mode \<rparr>) [n, 1, h, w])"
proof -
  from AudioNet_init_fields [OF assms(1)]
  have F: "0 < base_filters hp" and C: "0 \<le> num_classes hp" and net: "net0 =
     \<lparr> hparams = hp, training = True,
       conv1 = \<lparr> in_channels = 1, out_channels = base_filters hp, kernel_size = 11, padding = 5 \<rparr>,
       bn1 = \<lparr> num_features = base_filters hp \<rparr>,
       conv2 = \<lparr> in_channels = base_filters hp, out_channels = base_filters hp,
                 kernel_size = 3, padding = 1 \<rparr>,
       bn2 = \<lparr> num_features = base_filters hp \<rparr>,
       pool1 = \<lparr> pool_size = 2 \<rparr>,
       conv3 = \<lparr> in_channels = base_filters hp, out_channels = base_filters hp * 2,
                 kernel_size = 3, padding = 1 \<rparr>,
       bn3 = \<lparr> num_features = base_filters hp * 2 \<rparr>,
       conv4 = \<lparr> in_channels = base_filters hp * 2, out_channels = base_filters hp * 4,
                 kernel_size = 3, padding = 1 \<rparr>,
       bn4 = \<lparr> num_features = base_filters hp * 4 \<rparr>,
       pool2 = \<lparr> pool_size = 2 \<rparr>,
       fc1 = \<lparr> in_features = base_filters hp * 4, out_features = num_classes hp \<rparr> \<rparr>"
    by simp_all
  have small: "h < 2 \<or> w < 2 \<or> (h - 2) div 2 + 1 < 2 \<or> (w - 2) div 2 + 1 < 2"
    using assms(2) by auto
  show ?thesis
    using F C small
    by (auto simp: net forward_shape_def forward_layers_def conv_shape_def batchnorm_shape_def
        maxpool_shape_def avgpool_shape_def index00_shape_def linear_shape_def bind_err_def)
qed

text \<open>
  C3. A network as constructed, in training or in evaluation mode, maps a batch of
  shape \<open>(N, 1, H, W)\<close> with \<open>H\<close> and \<open>W\<close> at least 4 to an output of shape
  \<open>(N, num_classes)\<close>. The last operation of the forward pass is the linear layer, whose
  output is returned as it is, and no softmax is among the operations applied.
\<close>

theorem forward_returns_logits_shape:
  assumes "AudioNet_init hp = Inr net0" and "4 \<le> h" and "4 \<le> w"
  shows "forward_shape (net0 \<lparr> training := mode \<rparr>) [n, 1, h, w] = Inr [n, nat (num_classes hp)]
           \<and> int (nat (num_classes hp)) = num_classes hp
           \<and> last (forward_layers (net0 \<lparr> training := mode \<rparr>)) = Lin (fc1 net0)
           \<and> (\<forall>d. Softmax d \<notin> set (forward_layers (net0 \<lparr> training := mode \<rparr>)))"
proof -
  have "forward_shape (net0 \<lparr> training := mode \<rparr>) [n, 1, h, w] = Inr [n, nat (num_classes hp)]"
    using assms by (rule forward_shape_built)
  moreover have "int (nat (num_classes hp)) = num_classes hp"
    using AudioNet_init_fields [OF assms(1)] by simp
  moreover have "last (forward_layers (net0 \<lparr> training := mode \<rparr>)) = Lin (fc1 net0)"
    by (simp add: forward_layers_def)
  moreover have "\<forall>d. Softmax d \<notin> set (forward_layers (net0 \<lparr> training := mode \<rparr>))"
    by (simp add: forward_layers_def)
  ultimately show ?thesis by blast
qed

text \<open>
  The network of width 32 for 50 classes, in evaluation mode, on the batch of five
  inputs of 200 by 100 that the test of the repository uses.
\<close>

theorem forward_returns_logits_shape_witness:
  "\<exists>net. AudioNet_init example_hparams = Inr net
      \<and> forward_shape (net \<lparr> training := False \<rparr>) [5, 1, 200, 100] = Inr [5, 50]"
proof -
  have valid: "0 < base_filters example_hparams" "0 \<le> num_classes example_hparams"
    by (simp_all add: example_hparams_def)
  from AudioNet_init_valid [OF valid] obtain net where net: "AudioNet_init example_hparams = Inr net"
    by blast
  have "(4::nat) \<le> 200" and "(4::nat) \<le> 100"
    by simp_all
  from forward_returns_logits_shape [OF net this, of False 5]
  have "forward_shape (net \<lparr> training := False \<rparr>) [5, 1, 200, 100] = Inr [5, 50]"
    by (simp add: example_hparams_def)
  with net show ?thesis by blast
qed

section \<open>Properties of the validation step\<close>

lemma argmax_from_greatest:
  assumes "ys = pre @ xs" and "length pre = i" and "besti < i" and "ys ! besti = best"
    and "\<forall>v \<in> set pre. v \<le> best"
  shows "argmax_from best besti i xs < length ys
           \<and> (\<forall>v \<in> set ys. v \<le> ys ! argmax_from best besti i xs)"
  using assms
proof (induction xs arbitrary: best besti i pre)
  case Nil
  then show ?case by simp
next
  case (Cons x xs)
  have split: "ys = (pre @ [x]) @ xs" and len: "length (pre @ [x]) = Suc i"
    using Cons.prems(1,2) by simp_all
  have at_i: "ys ! i = x"
    using Cons.prems(1,2) by (simp add: nth_append)
  show ?case
  proof (cases "best < x")
    case True
    have "\<forall>v \<in> set (pre @ [x]). v \<le> x"
      using Cons.prems(5) True by auto
    from Cons.IH [OF split len _ at_i this] True show ?thesis by simp
  next
    case False
    have "\<forall>v \<in> set (pre @ [x]). v \<le> best"
      using Cons.prems(5) False by auto
    moreover have "besti < Suc i"
      using Cons.prems(3) by simp
    ultimately show ?thesis
      using Cons.IH [OF split len _ Cons.prems(4)] False by simp
  qed
qed

lemma argmax_row_greatest:
  assumes "argmax_row row = Inr c"
  shows "0 \<le> c \<and> nat c < length row \<and> (\<forall>v \<in> set row. v \<le> row ! nat c)"
proof (cases row)
  case Nil
  with assms show ?thesis by (simp add: argmax_row_def)
next
  case (Cons x xs)
  with assms have c: "c = int (argmax_from x 0 1 xs)"
    by (simp add: argmax_row_def)
  have "argmax_from x 0 1 xs < length row
          \<and> (\<forall>v \<in> set row. v \<le> row ! argmax_from x 0 1 xs)"
    by (rule argmax_from_greatest [where pre = "[x]"]) (simp_all add: Cons)
  with c show ?thesis by simp
qed

lemma argmax_dim1_rows:
  assumes "argmax_dim1 logits = Inr pred"
  shows "length pred = length logits
           \<and> (\<forall>i < length logits. argmax_row (logits ! i) = Inr (pred ! i))"
  using assms
proof (induction logits arbitrary: pred)
  case Nil
  then show ?case by simp
next
  case (Cons r rs)
  from Cons.prems obtain c cs where c: "argmax_row r = Inr c"
    and cs: "argmax_dim1 rs = Inr cs" and pred: "pred = c # cs"
    by (auto simp: bind_err_def split: sum.splits)
  from Cons.IH [OF cs] c pred show ?case
    by (auto simp: nth_Cons split: nat.splits)
qed

lemma agreeing_all:
  "length (filter (\<lambda>(p, t). p = t) (zip ys ys)) = length ys"
  by (induction ys) simp_all

lemma agreeing_none:
  assumes "length pred = length tgt" and "\<forall>i < length tgt. pred ! i \<noteq> tgt ! i"
  shows "filter (\<lambda>(p, t). p = t) (zip pred tgt) = []"
proof -
  have "\<forall>pt \<in> set (zip pred tgt). \<not> (case pt of (p, t) \<Rightarrow> p = t)"
    using assms by (auto simp: set_zip)
  then show ?thesis by (simp add: filter_empty_conv)
qed

lemma agreeing_positions:
  assumes "length pred = length tgt"
  shows "length (filter (\<lambda>(p, t). p = t) (zip pred tgt))
           = card {i. i < length tgt \<and> pred ! i = tgt ! i}"
proof -
  have "{i. i < length (zip pred tgt) \<and> (case zip pred tgt ! i of (p, t) \<Rightarrow> p = t)}
          = {i. i < length tgt \<and> pred ! i = tgt ! i}"
    using assms by auto
  then show ?thesis
    by (simp add: length_filter_conv_card)
qed

lemma accuracy_defined:
  assumes "length pred = length tgt" and "tgt \<noteq> []"
  shows "accuracy pred tgt
           = Inr (real (length (filter (\<lambda>(p, t). p = t) (zip pred tgt))) / real (length tgt))"
  using assms by (simp add: accuracy_def)

text \<open>A batch of no sample has no accuracy: the step raises.\<close>

lemma validation_step_empty_batch:
  "validation_step (\<lambda>x. Inr []) (x, []) = Inl RuntimeError"
  by (simp add: validation_step_def accuracy_def)

text \<open>
  C5. On a batch of at least one sample whose logits have one row for each label and at
  least one class, the validation step takes for each sample a class whose logit is
  greatest in the row of the sample, returns the number of samples whose prediction
  equals the label divided by the number of samples, and logs that value once under
  the name \<open>val_acc\<close> with aggregation over the epoch switched on. When every
  prediction equals its label the value is 1, and when every prediction differs from
  its label it is 0.
\<close>

theorem validation_step_accuracy:
  assumes "self x = Inr logits" and "argmax_dim1 logits = Inr pred"
    and "length logits = length y" and "y \<noteq> []"
  shows "\<exists>acc. validation_step self (x, y)
                  = Inr (acc, [\<lparr> name = ''val_acc'', val = acc, on_step = None,
                                  on_epoch = Some True, prog_bar = True \<rparr>])
           \<and> acc = real (card {i. i < length y \<and> pred ! i = y ! i}) / real (length y)
           \<and> accuracy pred y = Inr acc
           \<and> length pred = length logits
           \<and> (\<forall>i < length logits.
                 0 \<le> pred ! i \<and> nat (pred ! i) < length (logits ! i)
                 \<and> (\<forall>v \<in> set (logits ! i). v \<le> logits ! i ! nat (pred ! i)))
           \<and> (pred = y \<longrightarrow> acc = 1)
           \<and> ((\<forall>i < length y. pred ! i \<noteq> y ! i) \<longrightarrow> acc = 0)"
proof -
  let ?acc = "real (length (filter (\<lambda>(p, t). p = t) (zip pred y))) / real (length y)"
  from argmax_dim1_rows [OF assms(2)]
  have len': "length pred = length logits"
    and rows: "\<forall>i < length logits. argmax_row (logits ! i) = Inr (pred ! i)"
    by simp_all
  from len' assms(3) have len: "length pred = length y"
    by simp
  have acc: "accuracy pred y = Inr ?acc"
    using len assms(4) by (rule accuracy_defined)
  have formula: "?acc = real (card {i. i < length y \<and> pred ! i = y ! i}) / real (length y)"
    by (simp add: agreeing_positions [OF len])
  have step: "validation_step self (x, y)
                = Inr (?acc, [\<lparr> name = ''val_acc'', val = ?acc, on_step = None,
                                 on_epoch = Some True, prog_bar = True \<rparr>])"
    by (simp add: validation_step_def assms(1,2) acc log_def)
  have greatest: "\<forall>i < length logits.
                    0 \<le> pred ! i \<and> nat (pred ! i) < length (logits ! i)
                    \<and> (\<forall>v \<in> set (logits ! i). v \<le> logits ! i ! nat (pred ! i))"
    using rows argmax_row_greatest by blast
  have one: "pred = y \<longrightarrow> ?acc = 1"
    using assms(4) by (auto simp: agreeing_all)
  have zero: "(\<forall>i < length y. pred ! i \<noteq> y ! i) \<longrightarrow> ?acc = 0"
    using agreeing_none [OF len] by simp
  from step formula acc len' greatest one zero show ?thesis by blast
qed

text \<open>
  Three samples and three classes: a batch on which every prediction is right, the
  same logits against labels that every prediction misses, and against labels of which
  two of three are predicted.
\<close>

theorem validation_step_accuracy_witness:
  "validation_step (\<lambda>x. Inr x) ([[1, 5, 2], [7, 0, 3], [2, 2, 9]], [1, 0, 2])
     = Inr (1, [\<lparr> name = ''val_acc'', val = 1, on_step = None,
                   on_epoch = Some True, prog_bar = True \<rparr>])
   \<and> validation_step (\<lambda>x. Inr x) ([[1, 5, 2], [7, 0, 3], [2, 2, 9]], [0, 2, 1])
     = Inr (0, [\<lparr> name = ''val_acc'', val = 0, on_step = None,
                   on_epoch = Some True, prog_bar = True \<rparr>])
   \<and> validation_step (\<lambda>x. Inr x) ([[1, 5, 2], [7, 0, 3], [2, 2, 9]], [1, 0, 0])
     = Inr (2 / 3, [\<lparr> name = ''val_acc'', val = 2 / 3, on_step = None,
                       on_epoch = Some True, prog_bar = True \<rparr>])"
proof -
  let ?logits = "[[1, 5, 2], [7, 0, 3], [2, 2, 9]] :: real list list"
  have pred: "argmax_dim1 ?logits = Inr [1, 0, 2]"
    by (simp add: argmax_row_def)
  have right: "validation_step (\<lambda>x. Inr x) (?logits, [1, 0, 2])
                 = Inr (1, [\<lparr> name = ''val_acc'', val = 1, on_step = None,
                               on_epoch = Some True, prog_bar = True \<rparr>])"
    using validation_step_accuracy
            [where self = "\<lambda>x. Inr x" and x = "?logits" and logits = "?logits"
               and pred = "[1, 0, 2]" and y = "[1, 0, 2]"] pred
    by auto
  have miss: "\<forall>i < length [0, 2, 1 :: int]. [1, 0, 2 :: int] ! i \<noteq> [0, 2, 1] ! i"
    by (auto simp: nth_Cons split: nat.splits)
  have wrong: "validation_step (\<lambda>x. Inr x) (?logits, [0, 2, 1])
                 = Inr (0, [\<lparr> name = ''val_acc'', val = 0, on_step = None,
                               on_epoch = Some True, prog_bar = True \<rparr>])"
    using validation_step_accuracy
            [where self = "\<lambda>x. Inr x" and x = "?logits" and logits = "?logits"
               and pred = "[1, 0, 2]" and y = "[0, 2, 1]"] pred miss
    by auto
  have "{i. i < length [1, 0, 0 :: int] \<and> [1, 0, 2 :: int] ! i = [1, 0, 0] ! i} = {0, 1}"
    by (auto simp: nth_Cons' less_Suc_eq)
  then have two: "card {i. i < length [1, 0, 0 :: int] \<and> [1, 0, 2 :: int] ! i = [1, 0, 0] ! i} = 2"
    by simp
  have partly: "validation_step (\<lambda>x. Inr x) (?logits, [1, 0, 0])
                 = Inr (2 / 3, [\<lparr> name = ''val_acc'', val = 2 / 3, on_step = None,
                                   on_epoch = Some True, prog_bar = True \<rparr>])"
    using validation_step_accuracy
            [where self = "\<lambda>x. Inr x" and x = "?logits" and logits = "?logits"
               and pred = "[1, 0, 2]" and y = "[1, 0, 0]"] pred two
    by auto
  from right wrong partly show ?thesis by blast
qed

section \<open>Properties of the training entry point\<close>

lemma call_fst:
  "fst (call ev r k) = ev # (case r of Inl e \<Rightarrow> [] | Inr a \<Rightarrow> fst (k a))"
  by (simp add: call_def split: sum.splits prod.splits)

lemma call_snd:
  "snd (call ev r k) = (case r of Inl e \<Rightarrow> Inl e | Inr a \<Rightarrow> snd (k a))"
  by (simp add: call_def split: sum.splits prod.splits)

lemma train_kinds_prefix:
  "prefix (map kind_of (fst (train ext disk cfg))) train_calls"
  by (simp add: train_def Let_def call_fst train_calls_def split: sum.splits)

lemma train_kinds_complete:
  "snd (train ext disk cfg) = Inr () \<longrightarrow> map kind_of (fst (train ext disk cfg)) = train_calls"
  by (simp add: train_def Let_def call_fst call_snd train_calls_def split: sum.split)

lemma example_run_result:
  "snd (train example_env example_disk example_cfg) = Inr ()"
  by (simp add: train_def Let_def call_snd example_env_def example_cfg_def example_disk_def
      example_manifest_def example_hparams_def
      ESC50Dataset_init_def read_csv_def path_join_def isin_def default_sample_rate_def
      DataLoader_init_def ESC50Dataset_len_def
      AudioNet_init_def Conv2d_init_def BatchNorm2d_init_def MaxPool2d_init_def Linear_init_def)

lemma example_run_kinds:
  "map kind_of (fst (train example_env example_disk example_cfg)) = train_calls"
  using example_run_result train_kinds_complete by blast

lemma example_run_data:
  "filter builds_data (fst (train example_env example_disk example_cfg)) =
     [DatasetInit ''/repo/data'' 8000 [1],
      DatasetInit ''/repo/data'' 8000 [2],
      DatasetInit ''/repo/data'' 8000 [5],
      DataLoaderInit (example_dataset \<lparr> csv := [\<lparr> filename = ''a.wav'', fold_id = 1, target = 0 \<rparr>,
                                                 \<lparr> filename = ''c.wav'', fold_id = 1, target = 7 \<rparr>] \<rparr>) 2 True,
      DataLoaderInit (example_dataset \<lparr> csv := [\<lparr> filename = ''b.wav'', fold_id = 2, target = 3 \<rparr>] \<rparr>) 2 False,
      DataLoaderInit (example_dataset \<lparr> csv := [\<lparr> filename = ''d.wav'', fold_id = 5, target = 2 \<rparr>] \<rparr>) 2 False]"
  by (simp add: train_def Let_def call_fst builds_data_def example_env_def example_cfg_def
      example_disk_def example_manifest_def example_dataset_def example_hparams_def
      ESC50Dataset_init_def read_csv_def path_join_def isin_def default_sample_rate_def
      DataLoader_init_def ESC50Dataset_len_def
      AudioNet_init_def Conv2d_init_def BatchNorm2d_init_def MaxPool2d_init_def Linear_init_def)

lemma train_never_seeds_first:
  "\<not> occurs_before KSeedEverything KDatasetInit (map kind_of (fst (train ext disk cfg)))
   \<and> \<not> occurs_before KSeedEverything KDataLoaderInit (map kind_of (fst (train ext disk cfg)))"
  by (simp add: train_def Let_def call_fst occurs_before_def split: sum.split)

lemma train_dataset_calls:
  "DatasetInit p sr f \<in> set (fst (train ext disk cfg)) \<longrightarrow> sr = 8000"
  by (auto simp: train_def Let_def call_fst default_sample_rate_def split: sum.split)

lemma init_pipeline:
  assumes "ESC50Dataset_init disk p sr folds = Inr ds"
  shows "resample ds = \<lparr> orig_freq = 44100, new_freq = sr \<rparr> \<and> melspec ds = \<lparr> sample_rate = sr \<rparr>"
  using init_fields [OF assms] by auto

lemma train_loader_datasets:
  "DataLoaderInit ds b s \<in> set (fst (train ext disk cfg)) \<longrightarrow>
     resample ds = \<lparr> orig_freq = 44100, new_freq = 8000 \<rparr> \<and> melspec ds = \<lparr> sample_rate = 8000 \<rparr>"
  by (auto simp: train_def Let_def call_fst default_sample_rate_def split: sum.split
      dest!: init_pipeline [OF sym])

lemma train_data_calls_independent:
  "filter builds_data
     (fst (train (ext \<lparr> wandb_config := w \<rparr>) disk
             (cfg \<lparr> data := (data cfg) \<lparr> data_sample_rate := s \<rparr> \<rparr>)))
   = filter builds_data (fst (train ext disk cfg))"
  by (simp add: train_def Let_def call_fst builds_data_def split: sum.split)

lemma train_events_kinds:
  "map kind_of (train_events ext cfg train_data val_data test_data train_loader val_loader audionet)
     = train_calls"
  by (simp add: train_events_def train_calls_def)

lemma train_events_prefix:
  "prefix (fst (train ext disk cfg))
     (train_events ext cfg
        (projr (ESC50Dataset_init disk (data_dir ext cfg) 8000 (train_folds (data cfg))))
        (projr (ESC50Dataset_init disk (data_dir ext cfg) 8000 (val_folds (data cfg))))
        (projr (ESC50Dataset_init disk (data_dir ext cfg) 8000 (test_folds (data cfg))))
        (projr (DataLoader_init
                  (projr (ESC50Dataset_init disk (data_dir ext cfg) 8000 (train_folds (data cfg))))
                  (batch_size (data cfg)) True))
        (projr (DataLoader_init
                  (projr (ESC50Dataset_init disk (data_dir ext cfg) 8000 (val_folds (data cfg))))
                  (batch_size (data cfg)) False))
        (projr (AudioNet_init (swept_model ext cfg))))"
  by (simp add: train_def Let_def call_fst train_events_def data_dir_def tracked_defaults_def
      swept_model_def default_sample_rate_def split: sum.split)

lemma train_returns:
  "snd (train ext disk cfg) = Inr () \<longrightarrow>
     (\<exists>train_data val_data test_data train_loader val_loader test_loader audionet trainer_obj.
        ESC50Dataset_init disk (data_dir ext cfg) 8000 (train_folds (data cfg)) = Inr train_data
        \<and> ESC50Dataset_init disk (data_dir ext cfg) 8000 (val_folds (data cfg)) = Inr val_data
        \<and> ESC50Dataset_init disk (data_dir ext cfg) 8000 (test_folds (data cfg)) = Inr test_data
        \<and> DataLoader_init train_data (batch_size (data cfg)) True = Inr train_loader
        \<and> DataLoader_init val_data (batch_size (data cfg)) False = Inr val_loader
        \<and> DataLoader_init test_data (batch_size (data cfg)) False = Inr test_loader
        \<and> AudioNet_init (swept_model ext cfg) = Inr audionet
        \<and> Trainer_init ext (trainer cfg) = Inr trainer_obj
        \<and> fit ext trainer_obj audionet train_loader val_loader = Inr ()
        \<and> fst (train ext disk cfg)
            = train_events ext cfg train_data val_data test_data train_loader val_loader audionet)"
  by (simp add: train_def Let_def call_fst call_snd train_events_def data_dir_def
      tracked_defaults_def swept_model_def default_sample_rate_def split: sum.split)

text \<open>
  C7, as the code has it. When \<open>train\<close> returns, its calls are, in this order and with
  these arguments: the resolved configuration is logged and its hyperparameters are
  given to the tracking service; the datasets of the configured training, validation
  and test folds are constructed, each with success; the three loaders are constructed
  over these datasets with the configured batch size; all randomness is seeded with
  the configured seed; the logger of the tracking service, the network (from the
  hyperparameters after the sweep) and the trainer are constructed; \<open>fit\<close> runs last,
  on the network and the training and validation loaders, and returns. The calls of
  a run that raises are an initial part of the same sequence. In no run is the
  seeding made before the construction of a dataset or of a loader; it is made after
  them and before the construction of the network and \<open>fit\<close>.
\<close>

theorem train_call_order:
  "(\<exists>train_data val_data test_data train_loader val_loader audionet.
      prefix (fst (train ext disk cfg))
        (train_events ext cfg train_data val_data test_data train_loader val_loader audionet)
      \<and> (\<forall>ds. ESC50Dataset_init disk (data_dir ext cfg) 8000 (train_folds (data cfg)) = Inr ds
              \<longrightarrow> train_data = ds)
      \<and> (\<forall>ds. ESC50Dataset_init disk (data_dir ext cfg) 8000 (val_folds (data cfg)) = Inr ds
              \<longrightarrow> val_data = ds)
      \<and> (\<forall>ds. ESC50Dataset_init disk (data_dir ext cfg) 8000 (test_folds (data cfg)) = Inr ds
              \<longrightarrow> test_data = ds)
      \<and> (\<forall>l. DataLoader_init train_data (batch_size (data cfg)) True = Inr l \<longrightarrow> train_loader = l)
      \<and> (\<forall>l. DataLoader_init val_data (batch_size (data cfg)) False = Inr l \<longrightarrow> val_loader = l)
      \<and> (\<forall>net. AudioNet_init (swept_model ext cfg) = Inr net \<longrightarrow> audionet = net))
   \<and> (snd (train ext disk cfg) = Inr () \<longrightarrow>
        (\<exists>train_data val_data test_data train_loader val_loader test_loader audionet trainer_obj.
           ESC50Dataset_init disk (data_dir ext cfg) 8000 (train_folds (data cfg)) = Inr train_data
           \<and> ESC50Dataset_init disk (data_dir ext cfg) 8000 (val_folds (data cfg)) = Inr val_data
           \<and> ESC50Dataset_init disk (data_dir ext cfg) 8000 (test_folds (data cfg)) = Inr test_data
           \<and> DataLoader_init train_data (batch_size (data cfg)) True = Inr train_loader
           \<and> DataLoader_init val_data (batch_size (data cfg)) False = Inr val_loader
           \<and> DataLoader_init test_data (batch_size (data cfg)) False = Inr test_loader
           \<and> AudioNet_init (swept_model ext cfg) = Inr audionet
           \<and> Trainer_init ext (trainer cfg) = Inr trainer_obj
           \<and> fit ext trainer_obj audionet train_loader val_loader = Inr ()
           \<and> fst (train ext disk cfg)
               = train_events ext cfg train_data val_data test_data train_loader val_loader audionet))
   \<and> prefix (map kind_of (fst (train ext disk cfg))) train_calls
   \<and> (snd (train ext disk cfg) = Inr () \<longrightarrow> map kind_of (fst (train ext disk cfg)) = train_calls)
   \<and> \<not> occurs_before KSeedEverything KDatasetInit (map kind_of (fst (train ext disk cfg)))
   \<and> \<not> occurs_before KSeedEverything KDataLoaderInit (map kind_of (fst (train ext disk cfg)))
   \<and> occurs_before KLoggerInfo KDatasetInit train_calls
   \<and> occurs_before KDatasetInit KDataLoaderInit train_calls
   \<and> occurs_before KDataLoaderInit KSeedEverything train_calls
   \<and> occurs_before KSeedEverything KAudioNetInit train_calls
   \<and> occurs_before KAudioNetInit KFit train_calls"
proof -
  let ?td = "projr (ESC50Dataset_init disk (data_dir ext cfg) 8000 (train_folds (data cfg)))"
  let ?vd = "projr (ESC50Dataset_init disk (data_dir ext cfg) 8000 (val_folds (data cfg)))"
  let ?sd = "projr (ESC50Dataset_init disk (data_dir ext cfg) 8000 (test_folds (data cfg)))"
  let ?tl = "projr (DataLoader_init ?td (batch_size (data cfg)) True)"
  let ?vl = "projr (DataLoader_init ?vd (batch_size (data cfg)) False)"
  let ?net = "projr (AudioNet_init (swept_model ext cfg))"
  have "prefix (fst (train ext disk cfg)) (train_events ext cfg ?td ?vd ?sd ?tl ?vl ?net)"
    by (rule train_events_prefix)
  moreover have "\<forall>ds. ESC50Dataset_init disk (data_dir ext cfg) 8000 (train_folds (data cfg)) = Inr ds
                   \<longrightarrow> ?td = ds"
    and "\<forall>ds. ESC50Dataset_init disk (data_dir ext cfg) 8000 (val_folds (data cfg)) = Inr ds
                   \<longrightarrow> ?vd = ds"
    and "\<forall>ds. ESC50Dataset_init disk (data_dir ext cfg) 8000 (test_folds (data cfg)) = Inr ds
                   \<longrightarrow> ?sd = ds"
    and "\<forall>l. DataLoader_init ?td (batch_size (data cfg)) True = Inr l \<longrightarrow> ?tl = l"
    and "\<forall>l. DataLoader_init ?vd (batch_size (data cfg)) False = Inr l \<longrightarrow> ?vl = l"
    and "\<forall>net. AudioNet_init (swept_model ext cfg) = Inr net \<longrightarrow> ?net = net"
    by simp_all
  ultimately have pinned:
    "\<exists>train_data val_data test_data train_loader val_loader audionet.
      prefix (fst (train ext disk cfg))
        (train_events ext cfg train_data val_data test_data train_loader val_loader audionet)
      \<and> (\<forall>ds. ESC50Dataset_init disk (data_dir ext cfg) 8000 (train_folds (data cfg)) = Inr ds
              \<longrightarrow> train_data = ds)
      \<and> (\<forall>ds. ESC50Dataset_init disk (data_dir ext cfg) 8000 (val_folds (data cfg)) = Inr ds
              \<longrightarrow> val_data = ds)
      \<and> (\<forall>ds. ESC50Dataset_init disk (data_dir ext cfg) 8000 (test_folds (data cfg)) = Inr ds
              \<longrightarrow> test_data = ds)
      \<and> (\<forall>l. DataLoader_init train_data (batch_size (data cfg)) True = Inr l \<longrightarrow> train_loader = l)
      \<and> (\<forall>l. DataLoader_init val_data (batch_size (data cfg)) False = Inr l \<longrightarrow> val_loader = l)
      \<and> (\<forall>net. AudioNet_init (swept_model ext cfg) = Inr net \<longrightarrow> audionet = net)"
    by (intro exI conjI)
  have "occurs_before KLoggerInfo KDatasetInit train_calls"
    and "occurs_before KDatasetInit KDataLoaderInit train_calls"
    and "occurs_before KDataLoaderInit KSeedEverything train_calls"
    and "occurs_before KSeedEverything KAudioNetInit train_calls"
    and "occurs_before KAudioNetInit KFit train_calls"
    by (simp_all add: occurs_before_def train_calls_def)
  with pinned train_returns [of ext disk cfg]
    train_kinds_prefix [of ext disk cfg] train_kinds_complete [of ext disk cfg]
    train_never_seeds_first [of ext disk cfg]
  show ?thesis by (intro conjI) blast+
qed

text \<open>
  The example run returns: its calls are the whole sequence, for the three folds, the
  batch size 2 and the seed 42 of the example configuration, and \<open>fit\<close> receives the
  loaders of the training and validation datasets.
\<close>

theorem train_call_order_witness:
  "snd (train example_env example_disk example_cfg) = Inr ()
   \<and> (\<exists>audionet train_loader val_loader.
         AudioNet_init example_hparams = Inr audionet
         \<and> train_loader =
             \<lparr> dataset = example_dataset \<lparr> csv := [\<lparr> filename = ''a.wav'', fold_id = 1, target = 0 \<rparr>,
                                                    \<lparr> filename = ''c.wav'', fold_id = 1, target = 7 \<rparr>] \<rparr>,
               loader_batch_size = 2, shuffle = True \<rparr>
         \<and> val_loader =
             \<lparr> dataset = example_dataset \<lparr> csv := [\<lparr> filename = ''b.wav'', fold_id = 2, target = 3 \<rparr>] \<rparr>,
               loader_batch_size = 2, shuffle = False \<rparr>
         \<and> fst (train example_env example_disk example_cfg) =
             [LoggerInfo example_cfg,
              WandbInit \<lparr> sweep_base_filters = 32, sweep_lr = 1 / 1000, sweep_sample_rate = 22050 \<rparr>,
              DatasetInit ''/repo/data'' 8000 [1],
              DatasetInit ''/repo/data'' 8000 [2],
              DatasetInit ''/repo/data'' 8000 [5],
              DataLoaderInit (dataset train_loader) 2 True,
              DataLoaderInit (dataset val_loader) 2 False,
              DataLoaderInit
                (example_dataset \<lparr> csv := [\<lparr> filename = ''d.wav'', fold_id = 5, target = 2 \<rparr>] \<rparr>) 2 False,
              SeedEverything 42,
              WandbLoggerInit,
              AudioNetInit example_hparams,
              TrainerInit (),
              Fit audionet train_loader val_loader])"
proof -
  have dir: "data_dir example_env example_cfg = ''/repo/data''"
    by (simp add: data_dir_def example_env_def example_cfg_def path_join_def)
  have hp: "swept_model example_env example_cfg = example_hparams"
    by (simp add: swept_model_def tracked_defaults_def example_env_def example_cfg_def
        example_hparams_def)
  have d1: "ESC50Dataset_init example_disk ''/repo/data'' 8000 [1]
              = Inr (example_dataset \<lparr> csv := [\<lparr> filename = ''a.wav'', fold_id = 1, target = 0 \<rparr>,
                                                 \<lparr> filename = ''c.wav'', fold_id = 1, target = 7 \<rparr>] \<rparr>)"
    and d2: "ESC50Dataset_init example_disk ''/repo/data'' 8000 [2]
              = Inr (example_dataset \<lparr> csv := [\<lparr> filename = ''b.wav'', fold_id = 2, target = 3 \<rparr>] \<rparr>)"
    and d3: "ESC50Dataset_init example_disk ''/repo/data'' 8000 [5]
              = Inr (example_dataset \<lparr> csv := [\<lparr> filename = ''d.wav'', fold_id = 5, target = 2 \<rparr>] \<rparr>)"
    by (simp_all add: ESC50Dataset_init_def read_csv_def path_join_def example_disk_def
        example_manifest_def example_dataset_def isin_def)
  have folds: "train_folds (data example_cfg) = [1]" "val_folds (data example_cfg) = [2]"
    "test_folds (data example_cfg) = [5]" "batch_size (data example_cfg) = 2"
    "seed example_cfg = 42" "trainer example_cfg = ()"
    by (simp_all add: example_cfg_def)
  note inst = train_call_order [of example_env example_disk example_cfg]
  note returned = mp [OF conjunct1 [OF conjunct2 [OF inst]] example_run_result]
  from returned
  obtain train_data val_data test_data train_loader val_loader test_loader audionet trainer_obj where
    run: "ESC50Dataset_init example_disk (data_dir example_env example_cfg) 8000
            (train_folds (data example_cfg)) = Inr train_data"
      "ESC50Dataset_init example_disk (data_dir example_env example_cfg) 8000
            (val_folds (data example_cfg)) = Inr val_data"
      "ESC50Dataset_init example_disk (data_dir example_env example_cfg) 8000
            (test_folds (data example_cfg)) = Inr test_data"
      "DataLoader_init train_data (batch_size (data example_cfg)) True = Inr train_loader"
      "DataLoader_init val_data (batch_size (data example_cfg)) False = Inr val_loader"
      "AudioNet_init (swept_model example_env example_cfg) = Inr audionet"
      "fst (train example_env example_disk example_cfg)
         = train_events example_env example_cfg train_data val_data test_data
             train_loader val_loader audionet"
    by (elim exE conjE)
  from run(1,2,3) have td: "train_data = example_dataset
                              \<lparr> csv := [\<lparr> filename = ''a.wav'', fold_id = 1, target = 0 \<rparr>,
                                        \<lparr> filename = ''c.wav'', fold_id = 1, target = 7 \<rparr>] \<rparr>"
    and vd: "val_data = example_dataset \<lparr> csv := [\<lparr> filename = ''b.wav'', fold_id = 2, target = 3 \<rparr>] \<rparr>"
    and sd: "test_data = example_dataset \<lparr> csv := [\<lparr> filename = ''d.wav'', fold_id = 5, target = 2 \<rparr>] \<rparr>"
    by (simp_all add: dir d1 d2 d3 folds)
  from run(4) have tl: "train_loader = \<lparr> dataset = train_data, loader_batch_size = 2, shuffle = True \<rparr>"
    by (auto simp: DataLoader_init_def folds split: if_splits)
  from run(5) have vl: "val_loader = \<lparr> dataset = val_data, loader_batch_size = 2, shuffle = False \<rparr>"
    by (auto simp: DataLoader_init_def folds split: if_splits)
  from run(6) have net: "AudioNet_init example_hparams = Inr audionet"
    by (simp add: hp)
  have events: "fst (train example_env example_disk example_cfg) =
             [LoggerInfo example_cfg,
              WandbInit \<lparr> sweep_base_filters = 32, sweep_lr = 1 / 1000, sweep_sample_rate = 22050 \<rparr>,
              DatasetInit ''/repo/data'' 8000 [1],
              DatasetInit ''/repo/data'' 8000 [2],
              DatasetInit ''/repo/data'' 8000 [5],
              DataLoaderInit (dataset train_loader) 2 True,
              DataLoaderInit (dataset val_loader) 2 False,
              DataLoaderInit test_data 2 False,
              SeedEverything 42,
              WandbLoggerInit,
              AudioNetInit example_hparams,
              TrainerInit (),
              Fit audionet train_loader val_loader]"
    unfolding run(7) train_events_def dir hp folds
    by (simp add: tl vl tracked_defaults_def example_cfg_def example_hparams_def)
  have "AudioNet_init example_hparams = Inr audionet
         \<and> train_loader =
             \<lparr> dataset = example_dataset \<lparr> csv := [\<lparr> filename = ''a.wav'', fold_id = 1, target = 0 \<rparr>,
                                                    \<lparr> filename = ''c.wav'', fold_id = 1, target = 7 \<rparr>] \<rparr>,
               loader_batch_size = 2, shuffle = True \<rparr>
         \<and> val_loader =
             \<lparr> dataset = example_dataset \<lparr> csv := [\<lparr> filename = ''b.wav'', fold_id = 2, target = 3 \<rparr>] \<rparr>,
               loader_batch_size = 2, shuffle = False \<rparr>
         \<and> fst (train example_env example_disk example_cfg) =
             [LoggerInfo example_cfg,
              WandbInit \<lparr> sweep_base_filters = 32, sweep_lr = 1 / 1000, sweep_sample_rate = 22050 \<rparr>,
              DatasetInit ''/repo/data'' 8000 [1],
              DatasetInit ''/repo/data'' 8000 [2],
              DatasetInit ''/repo/data'' 8000 [5],
              DataLoaderInit (dataset train_loader) 2 True,
              DataLoaderInit (dataset val_loader) 2 False,
              DataLoaderInit
                (example_dataset \<lparr> csv := [\<lparr> filename = ''d.wav'', fold_id = 5, target = 2 \<rparr>] \<rparr>) 2 False,
              SeedEverything 42,
              WandbLoggerInit,
              AudioNetInit example_hparams,
              TrainerInit (),
              Fit audionet train_loader val_loader]"
    using net tl vl events unfolding td vd sd by (intro conjI)
  then have "\<exists>audionet train_loader val_loader.
         AudioNet_init example_hparams = Inr audionet
         \<and> train_loader =
             \<lparr> dataset = example_dataset \<lparr> csv := [\<lparr> filename = ''a.wav'', fold_id = 1, target = 0 \<rparr>,
                                                    \<lparr> filename = ''c.wav'', fold_id = 1, target = 7 \<rparr>] \<rparr>,
               loader_batch_size = 2, shuffle = True \<rparr>
         \<and> val_loader =
             \<lparr> dataset = example_dataset \<lparr> csv := [\<lparr> filename = ''b.wav'', fold_id = 2, target = 3 \<rparr>] \<rparr>,
               loader_batch_size = 2, shuffle = False \<rparr>
         \<and> fst (train example_env example_disk example_cfg) =
             [LoggerInfo example_cfg,
              WandbInit \<lparr> sweep_base_filters = 32, sweep_lr = 1 / 1000, sweep_sample_rate = 22050 \<rparr>,
              DatasetInit ''/repo/data'' 8000 [1],
              DatasetInit ''/repo/data'' 8000 [2],
              DatasetInit ''/repo/data'' 8000 [5],
              DataLoaderInit (dataset train_loader) 2 True,
              DataLoaderInit (dataset val_loader) 2 False,
              DataLoaderInit
                (example_dataset \<lparr> csv := [\<lparr> filename = ''d.wav'', fold_id = 5, target = 2 \<rparr>] \<rparr>) 2 False,
              SeedEverything 42,
              WandbLoggerInit,
              AudioNetInit example_hparams,
              TrainerInit (),
              Fit audionet train_loader val_loader]"
    by (intro exI)
  with example_run_result show ?thesis by (rule conjI)
qed

text \<open>
  C7, as the claim states it, fails on the example run: the run returns, and its
  seeding is not made before its first construction of a dataset, which is made before
  the seeding.
\<close>

theorem train_seeding_order_counterexample:
  "snd (train example_env example_disk example_cfg) = Inr ()
   \<and> \<not> occurs_before KSeedEverything KDatasetInit
          (map kind_of (fst (train example_env example_disk example_cfg)))
   \<and> occurs_before KDatasetInit KSeedEverything
          (map kind_of (fst (train example_env example_disk example_cfg)))"
  by (simp add: example_run_result example_run_kinds occurs_before_def train_calls_def)

text \<open>
  C10. Every dataset that \<open>train\<close> constructs is constructed with the sample rate 8000 of
  the constructor's default, and every dataset that it wraps in a loader resamples
  from 44100 Hz to 8000 Hz and computes its mel spectrogram at 8000 Hz. The calls that
  construct the datasets and the loaders are the same whatever sample rate the
  configuration holds and whatever the tracking service puts in its place.
\<close>

theorem train_datasets_ignore_sample_rate:
  "(\<forall>p sr f. DatasetInit p sr f \<in> set (fst (train ext disk cfg)) \<longrightarrow> sr = 8000)
   \<and> (\<forall>ds b s. DataLoaderInit ds b s \<in> set (fst (train ext disk cfg)) \<longrightarrow>
          resample ds = \<lparr> orig_freq = 44100, new_freq = 8000 \<rparr>
          \<and> melspec ds = \<lparr> sample_rate = 8000 \<rparr>)
   \<and> (\<forall>w rate.
         filter builds_data
           (fst (train (ext \<lparr> wandb_config := w \<rparr>) disk
                   (cfg \<lparr> data := (data cfg) \<lparr> data_sample_rate := rate \<rparr> \<rparr>)))
         = filter builds_data (fst (train ext disk cfg)))"
  using train_dataset_calls [where ext = ext and disk = disk and cfg = cfg]
    train_loader_datasets [where ext = ext and disk = disk and cfg = cfg]
    train_data_calls_independent [where ext = ext and disk = disk and cfg = cfg]
  by blast

text \<open>
  The example run is configured with 22050 Hz and the sweep asks for 16000 Hz; its
  training dataset works at 8000 Hz, and a run configured with 44100 Hz under a sweep
  that asks for 48000 Hz constructs the same datasets and loaders.
\<close>

theorem train_datasets_ignore_sample_rate_witness:
  "data_sample_rate (data example_cfg) = 22050
   \<and> sweep_sample_rate (wandb_config example_env
        \<lparr> sweep_base_filters = 32, sweep_lr = 1 / 1000, sweep_sample_rate = 22050 \<rparr>) = 16000
   \<and> DataLoaderInit
        (example_dataset \<lparr> csv := [\<lparr> filename = ''a.wav'', fold_id = 1, target = 0 \<rparr>,
                                   \<lparr> filename = ''c.wav'', fold_id = 1, target = 7 \<rparr>] \<rparr>) 2 True
        \<in> set (fst (train example_env example_disk example_cfg))
   \<and> resample
        (example_dataset \<lparr> csv := [\<lparr> filename = ''a.wav'', fold_id = 1, target = 0 \<rparr>,
                                   \<lparr> filename = ''c.wav'', fold_id = 1, target = 7 \<rparr>] \<rparr>)
       = \<lparr> orig_freq = 44100, new_freq = 8000 \<rparr>
   \<and> filter builds_data
        (fst (train (example_env \<lparr> wandb_config := (\<lambda>d. d \<lparr> sweep_sample_rate := 48000 \<rparr>) \<rparr>)
                example_disk
                (example_cfg \<lparr> data := (data example_cfg) \<lparr> data_sample_rate := 44100 \<rparr> \<rparr>)))
       = filter builds_data (fst (train example_env example_disk example_cfg))"
proof -
  let ?ds = "example_dataset \<lparr> csv := [\<lparr> filename = ''a.wav'', fold_id = 1, target = 0 \<rparr>,
                                        \<lparr> filename = ''c.wav'', fold_id = 1, target = 7 \<rparr>] \<rparr>"
  note inst = train_datasets_ignore_sample_rate [of example_env example_disk example_cfg]
  have "DataLoaderInit ?ds 2 True
          \<in> set (filter builds_data (fst (train example_env example_disk example_cfg)))"
    by (simp add: example_run_data)
  then have made: "DataLoaderInit ?ds 2 True \<in> set (fst (train example_env example_disk example_cfg))"
    by simp
  with inst have pipeline: "resample ?ds = \<lparr> orig_freq = 44100, new_freq = 8000 \<rparr>"
    by blast
  from inst have same: "filter builds_data
        (fst (train (example_env \<lparr> wandb_config := (\<lambda>d. d \<lparr> sweep_sample_rate := 48000 \<rparr>) \<rparr>)
                example_disk
                (example_cfg \<lparr> data := (data example_cfg) \<lparr> data_sample_rate := 44100 \<rparr> \<rparr>)))
       = filter builds_data (fst (train example_env example_disk example_cfg))"
    by blast
  have "data_sample_rate (data example_cfg) = 22050"
    by (simp add: example_cfg_def)
  moreover have "sweep_sample_rate (wandb_config example_env
        \<lparr> sweep_base_filters = 32, sweep_lr = 1 / 1000, sweep_sample_rate = 22050 \<rparr>) = 16000"
    by (simp add: example_env_def)
  ultimately show ?thesis
    using made pipeline same by blast
qed


end
